theory Spec2Isabelle
  imports Main "HOL-Library.Word"
begin

section \<open>The vfkit machine driver (pkg/drivers/vfkit/vfkit.go)\<close>

text \<open>
  The driver supervises two child processes (vfkit and, optionally, vmnet-helper) through
  the file system, the process table, a unix socket and a DHCP lease lookup. All of these
  are outside the driver, so the model splits them in two: a \<^emph>\<open>world\<close> that the driver
  changes (the files, and the list of external actions performed so far), and an
  \<^emph>\<open>environment\<close> of answers the outside gives. An answer may depend on when it is asked:
  every oracle takes the number of external actions performed so far.
\<close>

subsection \<open>Errors and machine states\<close>

text \<open>Go error values. \<open>Wrap e m\<close> is \<open>errors.Wrap(e, m)\<close>; \<open>ErrMsg\<close> is any other error,
  carried by its message (\<open>fmt.Errorf\<close> without \<open>%w\<close>, system call failures).\<close>

datatype go_error =
    ErrNotExist
  | ErrProcessDone
  | EOF
  | ErrMsg string
  | Wrap go_error string

fun Error_msg :: "go_error \<Rightarrow> string" where
  "Error_msg ErrNotExist = ''file does not exist''"
| "Error_msg ErrProcessDone = ''os: process already finished''"
| "Error_msg EOF = ''EOF''"
| "Error_msg (ErrMsg m) = m"
| "Error_msg (Wrap e m) = m @ '': '' @ Error_msg e"

text \<open>\<open>errors.Is\<close>: the error or one it wraps is the target.\<close>

fun errors_Is :: "go_error \<Rightarrow> go_error \<Rightarrow> bool" where
  "errors_Is (Wrap e m) t = (Wrap e m = t \<or> errors_Is e t)"
| "errors_Is e t = (e = t)"

text \<open>libmachine's \<open>state.State\<close>.\<close>

datatype state =
  StateNone | Running | Paused | Saved | Stopped | Stopping | Starting | Error | Timeout

subsection \<open>The world and the environment\<close>

datatype signal = SIGTERM | SIGKILL

text \<open>\<open>time.Duration\<close> counts nanoseconds.\<close>

definition Second :: nat where
  "Second = 1000000000"

datatype event =
    EvPost string string string
  | EvReadPidfile string
  | EvFindProcess int string
  | EvSignal signal int string
  | EvRemove string
  | EvHelper string
  | EvLookup string
  | EvSleep nat
  | EvUnblockBootpd
  | EvDial string
  | EvRead string
  | EvClose string

record world =
  files :: "string \<rightharpoonup> string"
  trace :: "event list"

definition now :: "world \<Rightarrow> nat" where
  "now w = length (trace w)"

definition emit :: "event \<Rightarrow> world \<Rightarrow> world" where
  "emit e w = w\<lparr>trace := trace w @ [e]\<rparr>"

record http_Response =
  StatusCode :: int
  Body :: string

record tar_Header =
  Name :: string
  Typeflag :: char
  Mode :: int
  Size :: int

record VMState =
  State :: string

text \<open>
  What the driver's collaborators answer. The first argument of an oracle is the time
  \<^term>\<open>now\<close> of the call.
  \<^item> \<open>filepath_Join\<close>: Go's \<open>filepath.Join\<close>;
  \<^item> \<open>read_denied\<close>, \<open>write_denied\<close>, \<open>remove_denied\<close>: paths on which the operating system
    refuses the operation; \<open>truncate_denied\<close>: paths and lengths at which it refuses to
    resize a file; \<open>pid_of_bytes\<close>: the PID a PID file's content stands for, if any;
  \<^item> \<open>find_process\<close>: the process table (the executable name of a live PID);
    \<open>send_signal\<close>: the result of signalling a live process;
  \<^item> \<open>json_string\<close>: the JSON literal of a Go string; \<open>http_Post\<close> (socket path, URL,
    body; the content type is always \<open>application/json\<close>): the control channel;
  \<^item> \<open>NestedVM\<close>: \<open>detect.NestedVM()\<close>; \<open>GetIPAddressByMACAddress\<close>: the DHCP lease lookup;
    \<open>UnblockBootpd\<close>: \<open>firewall.UnblockBootpd()\<close>;
  \<^item> \<open>tar_bytes\<close>: the bytes \<open>archive/tar\<close> writes for a closed archive of the given
    entries;
  \<^item> \<open>net_Dial\<close>, \<open>conn_Read\<close>: the TCP probe of the SSH endpoint.
\<close>

record env =
  filepath_Join :: "string list \<Rightarrow> string"
  read_denied :: "string \<Rightarrow> bool"
  write_denied :: "string \<Rightarrow> bool"
  remove_denied :: "string \<Rightarrow> bool"
  truncate_denied :: "string \<Rightarrow> nat \<Rightarrow> bool"
  pid_of_bytes :: "string \<Rightarrow> int option"
  find_process :: "nat \<Rightarrow> int \<Rightarrow> go_error + string option"
  send_signal :: "nat \<Rightarrow> signal \<Rightarrow> int \<Rightarrow> go_error option"
  json_string :: "string \<Rightarrow> string"
  http_Post :: "nat \<Rightarrow> string \<Rightarrow> string \<Rightarrow> string \<Rightarrow> go_error + http_Response"
  NestedVM :: bool
  GetIPAddressByMACAddress :: "nat \<Rightarrow> string \<Rightarrow> string \<times> go_error option"
  UnblockBootpd :: "nat \<Rightarrow> go_error option"
  tar_bytes :: "(tar_Header \<times> string) list \<Rightarrow> string"
  net_Dial :: "nat \<Rightarrow> string \<Rightarrow> go_error option"
  conn_Read :: "nat \<Rightarrow> string \<Rightarrow> go_error option"

subsection \<open>The driver\<close>

text \<open>\<open>vmnet.Helper\<close>, as far as the driver sees it: the process handle of the network
  helper (the path of its PID file and the name of its executable).\<close>

record Helper =
  helper_pidfile :: string
  helper_role :: string

text \<open>The fields of \<open>Driver\<close> and of the embedded \<open>BaseDriver\<close>. Go's \<open>int\<close> has 64 bits on
  darwin, the only platform this file builds for.\<close>

record Driver =
  IPAddress :: string
  MachineName :: string
  SSHUser :: string
  SSHPort :: int
  StorePath :: string
  Boot2DockerURL :: string
  DiskSize :: "64 word"
  CPU :: int
  Memory :: int
  ExtraDisks :: int
  Network :: string
  MACAddress :: string
  VmnetHelper :: "Helper option"

definition pidFileName :: string where "pidFileName = ''vfkit.pid''"
definition sockFilename :: string where "sockFilename = ''vfkit.sock''"

definition GetMachineName :: "Driver \<Rightarrow> string" where
  "GetMachineName d = MachineName d"

definition machineDir :: "env \<Rightarrow> Driver \<Rightarrow> string" where
  "machineDir E d = filepath_Join E [StorePath d, ''machines'', GetMachineName d]"

definition sshKeyPath :: "env \<Rightarrow> Driver \<Rightarrow> string" where
  "sshKeyPath E d = filepath_Join E [machineDir E d, ''id_rsa'']"

definition publicSSHKeyPath :: "env \<Rightarrow> Driver \<Rightarrow> string" where
  "publicSSHKeyPath E d = sshKeyPath E d @ ''.pub''"

definition diskPath :: "env \<Rightarrow> Driver \<Rightarrow> string" where
  "diskPath E d = filepath_Join E [machineDir E d, ''disk.img'']"

definition sockfilePath :: "env \<Rightarrow> Driver \<Rightarrow> string" where
  "sockfilePath E d = filepath_Join E [machineDir E d, sockFilename]"

definition pidfilePath :: "env \<Rightarrow> Driver \<Rightarrow> string" where
  "pidfilePath E d = filepath_Join E [machineDir E d, pidFileName]"

subsection \<open>The process supervisor (package \<open>process\<close>) and \<open>os.Remove\<close>\<close>

text \<open>The driver calls \<open>process.ReadPidfile\<close>, \<open>process.Exists\<close>, \<open>process.Terminate\<close> and
  \<open>process.Kill\<close>; the package is not part of the driver's file. Each is modelled twice:
  what it computes, and the call the driver makes, which also records the action.\<close>

text \<open>Modelled from the spec: what \<open>process.ReadPidfile\<close> returns, a function missing from
  the sources. Section 4.1: the absence of the PID file is "not exist", any other read
  failure is another error.\<close>

definition read_pidfile :: "env \<Rightarrow> string \<Rightarrow> world \<Rightarrow> go_error + int" where
  "read_pidfile E path w =
     (case files w path of
        None \<Rightarrow> Inl ErrNotExist
      | Some data \<Rightarrow>
          if read_denied E path then Inl (ErrMsg ''permission denied'')
          else (case pid_of_bytes E data of
                  None \<Rightarrow> Inl (ErrMsg ''invalid pid'')
                | Some pid \<Rightarrow> Inr pid))"

text \<open>Modelled from the spec: what \<open>process.Exists\<close> returns, a function missing from the
  sources. Section 4.1: whether a process with that PID and matching name is alive.\<close>

definition proc_exists :: "env \<Rightarrow> nat \<Rightarrow> int \<Rightarrow> string \<Rightarrow> go_error + bool" where
  "proc_exists E t pid executable =
     (case find_process E t pid of
        Inl err \<Rightarrow> Inl err
      | Inr None \<Rightarrow> Inr False
      | Inr (Some name) \<Rightarrow> Inr (name = executable))"

text \<open>\<open>os.Remove\<close> on the file system of the model.\<close>

definition remove_file :: "env \<Rightarrow> string \<Rightarrow> world \<Rightarrow> go_error option \<times> world" where
  "remove_file E path w =
     (case files w path of
        None \<Rightarrow> (Some ErrNotExist, w)
      | Some data \<Rightarrow>
          if remove_denied E path then (Some (ErrMsg ''operation not permitted''), w)
          else (None, w\<lparr>files := (files w)(path := None)\<rparr>))"

text \<open>Modelled from the spec: \<open>process.Terminate\<close> and \<open>process.Kill\<close>, functions missing
  from the sources. Section 4.1: they send the graceful or the forceful signal to the
  recorded PID; the driver's own code shows that both return \<open>os.ErrProcessDone\<close> for a
  process that is gone.\<close>

definition signal_process ::
  "env \<Rightarrow> signal \<Rightarrow> int \<Rightarrow> string \<Rightarrow> world \<Rightarrow> go_error option \<times> world" where
  "signal_process E sig pid executable w =
     (case proc_exists E (now w) pid executable of
        Inl err \<Rightarrow> (Some err, emit (EvFindProcess pid executable) w)
      | Inr False \<Rightarrow> (Some ErrProcessDone, emit (EvFindProcess pid executable) w)
      | Inr True \<Rightarrow>
          (let w1 = emit (EvFindProcess pid executable) w
           in (send_signal E (now w1) sig pid, emit (EvSignal sig pid executable) w1)))"

text \<open>Modelled from the spec: the call of \<open>process.ReadPidfile\<close>, missing from the
  sources (see \<open>read_pidfile\<close>).\<close>

definition process_ReadPidfile :: "env \<Rightarrow> string \<Rightarrow> world \<Rightarrow> (go_error + int) \<times> world" where
  "process_ReadPidfile E path w = (read_pidfile E path w, emit (EvReadPidfile path) w)"

text \<open>Modelled from the spec: the call of \<open>process.Exists\<close>, missing from the sources
  (see \<open>proc_exists\<close>).\<close>

definition process_Exists ::
  "env \<Rightarrow> int \<Rightarrow> string \<Rightarrow> world \<Rightarrow> (go_error + bool) \<times> world" where
  "process_Exists E pid executable w =
     (proc_exists E (now w) pid executable, emit (EvFindProcess pid executable) w)"

text \<open>Modelled from the spec: the call of \<open>process.Terminate\<close>, missing from the
  sources (see \<open>signal_process\<close>).\<close>

definition process_Terminate ::
  "env \<Rightarrow> int \<Rightarrow> string \<Rightarrow> world \<Rightarrow> go_error option \<times> world" where
  "process_Terminate E pid executable w = signal_process E SIGTERM pid executable w"

text \<open>Modelled from the spec: the call of \<open>process.Kill\<close>, missing from the sources
  (see \<open>signal_process\<close>).\<close>

definition process_Kill ::
  "env \<Rightarrow> int \<Rightarrow> string \<Rightarrow> world \<Rightarrow> go_error option \<times> world" where
  "process_Kill E pid executable w = signal_process E SIGKILL pid executable w"

text \<open>The call of \<open>os.Remove\<close>.\<close>

definition os_Remove :: "env \<Rightarrow> string \<Rightarrow> world \<Rightarrow> go_error option \<times> world" where
  "os_Remove E path w = remove_file E path (emit (EvRemove path) w)"

subsection \<open>The network helper (package \<open>vmnet\<close>)\<close>

text \<open>The driver calls the methods GetState, Stop and Kill of \<open>vmnet.Helper\<close>; the package
  is not part of the driver's file. A call of the helper is one external action of the
  driver.\<close>

text \<open>Modelled from the spec: the state query of a process handle, missing from the
  sources. Section 4.1: Stopped when the PID file is absent, Error on any other read
  failure, Running when the recorded process is alive under the expected name; otherwise
  the stale PID file is deleted and the state is Stopped.\<close>

definition QueryState ::
  "env \<Rightarrow> string \<Rightarrow> string \<Rightarrow> world \<Rightarrow> (state \<times> go_error option) \<times> world" where
  "QueryState E pidfile role w =
     (case read_pidfile E pidfile w of
        Inl err \<Rightarrow>
          if errors_Is err ErrNotExist then ((Stopped, None), w) else ((Error, Some err), w)
      | Inr pid \<Rightarrow>
          (case proc_exists E (now w) pid role of
             Inl err \<Rightarrow> ((Error, Some err), w)
           | Inr False \<Rightarrow> ((Stopped, None), snd (remove_file E pidfile w))
           | Inr True \<Rightarrow> ((Running, None), w)))"

text \<open>Modelled from the spec: Terminate and Kill of a process handle, missing from the
  sources. Section 4.1: a no-op success when the PID file is absent; when the process is
  gone the stale PID file is deleted and the call succeeds; otherwise the signal is sent.\<close>

definition SignalHandle ::
  "env \<Rightarrow> signal \<Rightarrow> string \<Rightarrow> string \<Rightarrow> world \<Rightarrow> go_error option \<times> world" where
  "SignalHandle E sig pidfile role w =
     (case read_pidfile E pidfile w of
        Inl err \<Rightarrow> if errors_Is err ErrNotExist then (None, w) else (Some err, w)
      | Inr pid \<Rightarrow>
          (case proc_exists E (now w) pid role of
             Inl err \<Rightarrow> (Some err, w)
           | Inr False \<Rightarrow> (None, snd (remove_file E pidfile w))
           | Inr True \<Rightarrow> (send_signal E (now w) sig pid, w)))"

text \<open>Modelled from the spec: \<open>vmnet.Helper.GetState\<close>, missing from the sources: the state
  query of the helper's process handle.\<close>

definition Helper_GetState ::
  "env \<Rightarrow> Helper \<Rightarrow> world \<Rightarrow> (state \<times> go_error option) \<times> world" where
  "Helper_GetState E h w =
     QueryState E (helper_pidfile h) (helper_role h) (emit (EvHelper ''GetState'') w)"

text \<open>Modelled from the spec: \<open>vmnet.Helper.Stop\<close>, missing from the sources: Terminate on
  the helper's process handle.\<close>

definition Helper_Stop :: "env \<Rightarrow> Helper \<Rightarrow> world \<Rightarrow> go_error option \<times> world" where
  "Helper_Stop E h w =
     SignalHandle E SIGTERM (helper_pidfile h) (helper_role h) (emit (EvHelper ''Stop'') w)"

text \<open>Modelled from the spec: \<open>vmnet.Helper.Kill\<close>, missing from the sources: Kill on the
  helper's process handle.\<close>

definition Helper_Kill :: "env \<Rightarrow> Helper \<Rightarrow> world \<Rightarrow> go_error option \<times> world" where
  "Helper_Kill E h w =
     SignalHandle E SIGKILL (helper_pidfile h) (helper_role h) (emit (EvHelper ''Kill'') w)"

subsection \<open>GetState\<close>

definition getVfkitState ::
  "env \<Rightarrow> Driver \<Rightarrow> world \<Rightarrow> (state \<times> go_error option) \<times> world" where
  "getVfkitState E d w =
     (let pidfile = pidfilePath E d
      in case process_ReadPidfile E pidfile w of
           (Inl err, w1) \<Rightarrow>
             if \<not> errors_Is err ErrNotExist then ((Error, Some err), w1)
             else ((Stopped, None), w1)
         | (Inr pid, w1) \<Rightarrow>
             (case process_Exists E pid ''vfkit'' w1 of
                (Inl err, w2) \<Rightarrow> ((Error, Some err), w2)
              | (Inr exists, w2) \<Rightarrow>
                  if \<not> exists then
                    (case os_Remove E pidfile w2 of
                       (Some err, w3) \<Rightarrow> ((Stopped, None), w3)
                     | (None, w3) \<Rightarrow> ((Stopped, None), w3))
                  else ((Running, None), w2)))"

definition getVmnetHelperState ::
  "env \<Rightarrow> Driver \<Rightarrow> world \<Rightarrow> (state \<times> go_error option) \<times> world" where
  "getVmnetHelperState E d w =
     (case VmnetHelper d of
        None \<Rightarrow> ((Stopped, None), w)
      | Some h \<Rightarrow> Helper_GetState E h w)"

definition GetState :: "env \<Rightarrow> Driver \<Rightarrow> world \<Rightarrow> (state \<times> go_error option) \<times> world" where
  "GetState E d w =
     (case getVfkitState E d w of
        ((vfkitState, Some err), w1) \<Rightarrow> ((Error, Some err), w1)
      | ((vfkitState, None), w1) \<Rightarrow>
          if vfkitState = Running then ((Running, None), w1)
          else getVmnetHelperState E d w1)"

subsection \<open>The control channel\<close>

text \<open>\<open>json.Marshal\<close> of a \<open>VMState\<close>: a struct of one string field always encodes.\<close>

definition json_Marshal :: "env \<Rightarrow> VMState \<Rightarrow> go_error + string" where
  "json_Marshal E v = Inr (''{\"state\":'' @ json_string E (State v) @ ''}'')"

definition SetVFKitState :: "env \<Rightarrow> Driver \<Rightarrow> string \<Rightarrow> world \<Rightarrow> go_error option \<times> world" where
  "SetVFKitState E d s w =
     (let vmstate = \<lparr>State = s\<rparr>
      in case json_Marshal E vmstate of
           Inl err \<Rightarrow> (Some err, w)
         | Inr data \<Rightarrow>
             (case http_Post E (now w) (sockfilePath E d) ''http://_/vm/state'' data of
                Inl err \<Rightarrow>
                  (Some err, emit (EvPost (sockfilePath E d) ''http://_/vm/state'' data) w)
              | Inr response \<Rightarrow>
                  (None, emit (EvPost (sockfilePath E d) ''http://_/vm/state'' data) w)))"

subsection \<open>Stop and Kill\<close>

definition stopVfkit :: "env \<Rightarrow> Driver \<Rightarrow> world \<Rightarrow> go_error option \<times> world" where
  "stopVfkit E d w =
     (case SetVFKitState E d ''Stop'' w of
        (None, w1) \<Rightarrow> (None, w1)
      | (Some err0, w1) \<Rightarrow>
          (let pidfile = pidfilePath E d
           in case process_ReadPidfile E pidfile w1 of
                (Inl err, w2) \<Rightarrow>
                  if \<not> errors_Is err ErrNotExist then (Some err, w2) else (None, w2)
              | (Inr pid, w2) \<Rightarrow>
                  (case process_Terminate E pid ''vfkit'' w2 of
                     (None, w3) \<Rightarrow> (None, w3)
                   | (Some err, w3) \<Rightarrow>
                       if err \<noteq> ErrProcessDone then (Some err, w3)
                       else (None, snd (os_Remove E pidfile w3)))))"

definition stopVmnetHelper :: "env \<Rightarrow> Driver \<Rightarrow> world \<Rightarrow> go_error option \<times> world" where
  "stopVmnetHelper E d w =
     (case VmnetHelper d of
        None \<Rightarrow> (None, w)
      | Some h \<Rightarrow> Helper_Stop E h w)"

definition Stop :: "env \<Rightarrow> Driver \<Rightarrow> world \<Rightarrow> go_error option \<times> world" where
  "Stop E d w =
     (case stopVfkit E d w of
        (Some err, w1) \<Rightarrow> (Some err, w1)
      | (None, w1) \<Rightarrow> stopVmnetHelper E d w1)"

definition killVfkit :: "env \<Rightarrow> Driver \<Rightarrow> world \<Rightarrow> go_error option \<times> world" where
  "killVfkit E d w =
     (case SetVFKitState E d ''HardStop'' w of
        (None, w1) \<Rightarrow> (None, w1)
      | (Some err0, w1) \<Rightarrow>
          (let pidfile = pidfilePath E d
           in case process_ReadPidfile E pidfile w1 of
                (Inl err, w2) \<Rightarrow>
                  if \<not> errors_Is err ErrNotExist then (Some err, w2) else (None, w2)
              | (Inr pid, w2) \<Rightarrow>
                  (case process_Kill E pid ''vfkit'' w2 of
                     (None, w3) \<Rightarrow> (None, w3)
                   | (Some err, w3) \<Rightarrow>
                       if err \<noteq> ErrProcessDone then (Some err, w3)
                       else (None, snd (os_Remove E pidfile w3)))))"

definition killVmnetHelper :: "env \<Rightarrow> Driver \<Rightarrow> world \<Rightarrow> go_error option \<times> world" where
  "killVmnetHelper E d w =
     (case VmnetHelper d of
        None \<Rightarrow> (None, w)
      | Some h \<Rightarrow> Helper_Kill E h w)"

definition Kill :: "env \<Rightarrow> Driver \<Rightarrow> world \<Rightarrow> go_error option \<times> world" where
  "Kill E d w =
     (case killVfkit E d w of
        (Some err, w1) \<Rightarrow> (Some err, w1)
      | (None, w1) \<Rightarrow> killVmnetHelper E d w1)"

subsection \<open>IP resolution\<close>

text \<open>\<open>strings.Contains\<close>.\<close>

fun strings_Contains :: "string \<Rightarrow> string \<Rightarrow> bool" where
  "strings_Contains [] substr = (substr = [])"
| "strings_Contains (c # s) substr =
     (take (length substr) (c # s) = substr \<or> strings_Contains s substr)"

definition isBootpdError :: "go_error \<Rightarrow> bool" where
  "isBootpdError err = strings_Contains (Error_msg err) ''could not find an IP address''"

text \<open>A call either returns or ends the process. \<open>exit.Error(reason, msg, err)\<close>, of
  minikube's package \<open>exit\<close>, reports a fatal error and exits: \<open>setupIP\<close> relies on it, for
  the line after the call announces that the firewall was unblocked.\<close>

datatype 'a outcome = Returns 'a | Exits string string go_error

text \<open>The closure \<open>getIP\<close> of \<open>setupIP\<close>: it stores what the lookup returns in
  \<open>d.IPAddress\<close>, also when the lookup fails.\<close>

definition getIP ::
  "env \<Rightarrow> string \<Rightarrow> Driver \<Rightarrow> world \<Rightarrow> go_error option \<times> Driver \<times> world" where
  "getIP E mac d w =
     (case GetIPAddressByMACAddress E (now w) mac of
        (ip, Some err) \<Rightarrow>
          (Some (Wrap err ''failed to get IP address''), d\<lparr>IPAddress := ip\<rparr>,
           emit (EvLookup mac) w)
      | (ip, None) \<Rightarrow> (None, d\<lparr>IPAddress := ip\<rparr>, emit (EvLookup mac) w))"

text \<open>The retry loop \<open>for i := 0; i < 60*multiplier; i++\<close>, from the value \<open>i\<close> of its
  counter; \<open>err\<close> is the variable \<open>err\<close> of \<open>setupIP\<close>.\<close>

function setupIP_loop ::
  "env \<Rightarrow> string \<Rightarrow> nat \<Rightarrow> nat \<Rightarrow> go_error option \<Rightarrow> Driver \<Rightarrow> world
     \<Rightarrow> go_error option \<times> Driver \<times> world" where
  "setupIP_loop E mac n i err d w =
     (if i < n then
        (case getIP E mac d w of
           (None, d1, w1) \<Rightarrow> (None, d1, w1)
         | (Some err1, d1, w1) \<Rightarrow>
             setupIP_loop E mac n (Suc i) (Some err1) d1 (emit (EvSleep (2 * Second)) w1))
      else (err, d, w))"
  by pat_completeness auto
termination
  by (relation "measure (\<lambda>(E, mac, n, i, err, d, w). n - i)") auto

definition setupIP ::
  "env \<Rightarrow> string \<Rightarrow> Driver \<Rightarrow> world \<Rightarrow> go_error option outcome \<times> Driver \<times> world" where
  "setupIP E mac d w =
     (let multiplier = (if NestedVM E then 3 else 1)
      in case setupIP_loop E mac (60 * multiplier) 0 None d w of
           (None, d1, w1) \<Rightarrow> (Returns None, d1, w1)
         | (Some err, d1, w1) \<Rightarrow>
             if \<not> isBootpdError err then
               (Returns (Some (Wrap err ''IP address never found in dhcp leases file'')), d1, w1)
             else
               (case UnblockBootpd E (now w1) of
                  Some unblockErr \<Rightarrow>
                    (Exits ''IfBootpdFirewall'' ''ip not found'' err, d1, emit EvUnblockBootpd w1)
                | None \<Rightarrow>
                    (Returns (Some (ErrMsg (''ip not found: '' @ Error_msg err))), d1,
                     emit EvUnblockBootpd w1)))"

subsection \<open>The disk image\<close>

text \<open>\<open>archive/tar\<close>'s writer, as far as its callers see it: the entries written so far and
  the number \<open>nb\<close> of bytes the current entry still expects. A header cannot follow an
  entry that is short of bytes, an entry takes no more bytes than its header announced, and
  a directory header announces none.\<close>

record tar_Writer =
  entries :: "(tar_Header \<times> string) list"
  nb :: nat

definition TypeDir :: char where
  "TypeDir = CHR ''5''"

definition tar_NewWriter :: tar_Writer where
  "tar_NewWriter = \<lparr>entries = [], nb = 0\<rparr>"

definition tw_WriteHeader :: "tar_Writer \<Rightarrow> tar_Header \<Rightarrow> go_error option \<times> tar_Writer" where
  "tw_WriteHeader tw hdr =
     (if nb tw > 0 then (Some (ErrMsg ''archive/tar: missed writing bytes''), tw)
      else if Size hdr < 0 then (Some (ErrMsg ''archive/tar: invalid tar header''), tw)
      else (None, tw\<lparr>entries := entries tw @ [(hdr, [])],
                      nb := (if Typeflag hdr = TypeDir then 0 else nat (Size hdr))\<rparr>))"

definition append_current :: "string \<Rightarrow> (tar_Header \<times> string) list \<Rightarrow> (tar_Header \<times> string) list"
  where
  "append_current b es =
     (case rev es of
        [] \<Rightarrow> []
      | (hdr, content) # earlier \<Rightarrow> rev earlier @ [(hdr, content @ b)])"

definition tw_Write :: "tar_Writer \<Rightarrow> string \<Rightarrow> go_error option \<times> tar_Writer" where
  "tw_Write tw b =
     (if length b > nb tw then
        (Some (ErrMsg ''archive/tar: write too long''),
         tw\<lparr>entries := append_current (take (nb tw) b) (entries tw), nb := 0\<rparr>)
      else (None, tw\<lparr>entries := append_current b (entries tw), nb := nb tw - length b\<rparr>))"

definition tw_Close :: "tar_Writer \<Rightarrow> go_error option \<times> tar_Writer" where
  "tw_Close tw =
     (if nb tw > 0 then (Some (ErrMsg ''archive/tar: missed writing bytes''), tw)
      else (None, tw))"

definition os_ReadFile :: "env \<Rightarrow> string \<Rightarrow> world \<Rightarrow> go_error + string" where
  "os_ReadFile E path w =
     (case files w path of
        None \<Rightarrow> Inl ErrNotExist
      | Some data \<Rightarrow>
          if read_denied E path then Inl (ErrMsg ''permission denied'') else Inr data)"

definition os_WriteFile :: "env \<Rightarrow> string \<Rightarrow> string \<Rightarrow> world \<Rightarrow> go_error option \<times> world" where
  "os_WriteFile E path data w =
     (if write_denied E path then (Some (ErrMsg ''permission denied''), w)
      else (None, w\<lparr>files := (files w)(path \<mapsto> data)\<rparr>))"

text \<open>\<open>os.Truncate\<close> cuts the file or extends it with zero bytes.\<close>

definition resize :: "nat \<Rightarrow> string \<Rightarrow> string" where
  "resize n data = take n data @ replicate (n - length data) (CHR 0x00)"

definition os_Truncate :: "env \<Rightarrow> string \<Rightarrow> int \<Rightarrow> world \<Rightarrow> go_error option \<times> world" where
  "os_Truncate E path n w =
     (if n < 0 then (Some (ErrMsg ''invalid argument''), w)
      else (case files w path of
              None \<Rightarrow> (Some ErrNotExist, w)
            | Some data \<Rightarrow>
                if write_denied E path \<or> truncate_denied E path (nat n) then
                  (Some (ErrMsg ''truncate failed''), w)
                else (None, w\<lparr>files := (files w)(path \<mapsto> resize (nat n) data)\<rparr>)))"

definition magicString :: string where
  "magicString = ''boot2docker, please format-me''"

text \<open>The headers \<open>generateDiskImage\<close> writes; the modes are the octal \<open>0700\<close> and \<open>0644\<close>.\<close>

definition magic_header :: tar_Header where
  "magic_header =
     \<lparr>Name = magicString, Typeflag = CHR 0x00, Mode = 0, Size = int (length magicString)\<rparr>"

definition ssh_dir_header :: tar_Header where
  "ssh_dir_header = \<lparr>Name = ''.ssh'', Typeflag = TypeDir, Mode = 7 * 8 * 8, Size = 0\<rparr>"

definition authorized_keys_header :: "string \<Rightarrow> string \<Rightarrow> tar_Header" where
  "authorized_keys_header name pubKey =
     \<lparr>Name = name, Typeflag = CHR 0x00, Mode = 6 * 8 * 8 + 4 * 8 + 4, Size = int (length pubKey)\<rparr>"

definition generateDiskImage ::
  "env \<Rightarrow> Driver \<Rightarrow> 64 word \<Rightarrow> world \<Rightarrow> go_error option \<times> world" where
  "generateDiskImage E d sz w =
     (let tw = tar_NewWriter
      in case tw_WriteHeader tw magic_header of
           (Some err, tw1) \<Rightarrow> (Some err, w)
         | (None, tw1) \<Rightarrow>
      (case tw_Write tw1 magicString of
           (Some err, tw2) \<Rightarrow> (Some err, w)
         | (None, tw2) \<Rightarrow>
      (case tw_WriteHeader tw2 ssh_dir_header of
           (Some err, tw3) \<Rightarrow> (Some err, w)
         | (None, tw3) \<Rightarrow>
      (case os_ReadFile E (publicSSHKeyPath E d) w of
           Inl err \<Rightarrow> (Some err, w)
         | Inr pubKey \<Rightarrow>
      (case tw_WriteHeader tw3 (authorized_keys_header ''.ssh/authorized_keys'' pubKey) of
           (Some err, tw4) \<Rightarrow> (Some err, w)
         | (None, tw4) \<Rightarrow>
      (case tw_Write tw4 pubKey of
           (Some err, tw5) \<Rightarrow> (Some err, w)
         | (None, tw5) \<Rightarrow>
      (case tw_WriteHeader tw5 (authorized_keys_header ''.ssh/authorized_keys2'' pubKey) of
           (Some err, tw6) \<Rightarrow> (Some err, w)
         | (None, tw6) \<Rightarrow>
      (case tw_Write tw6 pubKey of
           (Some err, tw7) \<Rightarrow> (Some err, w)
         | (None, tw7) \<Rightarrow>
      (case tw_Close tw7 of
           (Some err, tw8) \<Rightarrow> (Some err, w)
         | (None, tw8) \<Rightarrow>
      (let rawFile = diskPath E d
       in case os_WriteFile E rawFile (tar_bytes E (entries tw8)) w of
            (Some err, w1) \<Rightarrow> (None, w1)
          | (None, w1) \<Rightarrow>
              (case os_Truncate E rawFile (sint (sz * 1048576)) w1 of
                 (Some err, w2) \<Rightarrow> (None, w2)
               | (None, w2) \<Rightarrow> (None, w2))))))))))))"

subsection \<open>Waiting for the SSH endpoint\<close>



subsection \<open>A concrete machine\<close>

text \<open>An environment, a driver and a world to run the functions on: paths are joined
  with a slash, a PID file holds \<open>42\<close> or \<open>77\<close>, no process is alive, the control socket
  refuses connections, the lease lookup finds nothing and the SSH endpoint is unreachable.
  The examples below change one answer at a time.\<close>

fun join_slash :: "string list \<Rightarrow> string" where
  "join_slash [] = []"
| "join_slash [x] = x"
| "join_slash (x # y # ys) = x @ ''/'' @ join_slash (y # ys)"

definition env0 :: env where
  "env0 =
     \<lparr>filepath_Join = join_slash,
      read_denied = (\<lambda>path. False),
      write_denied = (\<lambda>path. False),
      remove_denied = (\<lambda>path. False),
      truncate_denied = (\<lambda>path n. False),
      pid_of_bytes = (\<lambda>data. if data = ''42'' then Some 42
                              else if data = ''77'' then Some 77 else None),
      find_process = (\<lambda>t pid. Inr None),
      send_signal = (\<lambda>t sig pid. None),
      json_string = (\<lambda>s. ''\"'' @ s @ ''\"''),
      http_Post = (\<lambda>t sock url body. Inl (ErrMsg ''connection refused'')),
      NestedVM = False,
      GetIPAddressByMACAddress = (\<lambda>t mac. ([], Some (ErrMsg ''no lease''))),
      UnblockBootpd = (\<lambda>t. None),
      tar_bytes = (\<lambda>es. concat (map (\<lambda>(hdr, content). Name hdr @ content) es)),
      net_Dial = (\<lambda>t addr. Some (ErrMsg ''connection refused'')),
      conn_Read = (\<lambda>t addr. None)\<rparr>"

definition drv0 :: Driver where
  "drv0 =
     \<lparr>IPAddress = [], MachineName = ''m'', SSHUser = ''docker'', SSHPort = 22,
      StorePath = ''/s'', Boot2DockerURL = [], DiskSize = 20000, CPU = 2, Memory = 2048,
      ExtraDisks = 0, Network = ''nat'', MACAddress = ''aa'', VmnetHelper = None\<rparr>"

definition helper0 :: Helper where
  "helper0 =
     \<lparr>helper_pidfile = ''/s/machines/m/vmnet-helper.pid'', helper_role = ''vmnet-helper''\<rparr>"

definition world0 :: world where
  "world0 = \<lparr>files = Map.empty, trace = []\<rparr>"

text \<open>A stale hypervisor PID file (PID 42 is not alive) beside a running helper (PID 77).\<close>

definition env_helper_running :: env where
  "env_helper_running =
     env0\<lparr>find_process :=
            (\<lambda>t pid. if pid = 77 then Inr (Some ''vmnet-helper'') else Inr None)\<rparr>"

definition drv_helper :: Driver where
  "drv_helper = drv0\<lparr>VmnetHelper := Some helper0\<rparr>"

definition world_stale :: world where
  "world_stale =
     \<lparr>files = [''/s/machines/m/vfkit.pid'' \<mapsto> ''42'',
               ''/s/machines/m/vmnet-helper.pid'' \<mapsto> ''77''],
      trace = []\<rparr>"

text \<open>The same, with a hypervisor PID file that cannot be read.\<close>

definition env_unreadable :: env where
  "env_unreadable =
     env_helper_running\<lparr>read_denied := (\<lambda>path. path = ''/s/machines/m/vfkit.pid'')\<rparr>"

text \<open>A control socket that answers every request with status 500.\<close>

definition env_http500 :: env where
  "env_http500 =
     env0\<lparr>http_Post := (\<lambda>t sock url body. Inr \<lparr>StatusCode = 500, Body = []\<rparr>)\<rparr>"

text \<open>A live hypervisor: PID 42 runs vfkit.\<close>

definition env_vfkit_running :: env where
  "env_vfkit_running =
     env0\<lparr>find_process := (\<lambda>t pid. if pid = 42 then Inr (Some ''vfkit'') else Inr None)\<rparr>"

subsection \<open>Sequences of calls\<close>



text \<open>The events of the network helper, and the signals among the events.\<close>

fun is_helper_event :: "event \<Rightarrow> bool" where
  "is_helper_event (EvHelper call) = True"
| "is_helper_event e = False"

fun signals_of :: "event list \<Rightarrow> (signal \<times> int \<times> string) list" where
  "signals_of [] = []"
| "signals_of (EvSignal sig pid name # es) = (sig, pid, name) # signals_of es"
| "signals_of (e # es) = signals_of es"

text \<open>What C5 says of the events \<open>hv\<close> that follow the control request \<open>request\<close> in
  \<open>stopVfkit\<close> and \<open>killVfkit\<close>: there are none when the request succeeded; when it failed
  they start with the reading of the hypervisor PID file; none of them is the helper's;
  the only signal among them is \<open>sig\<close>, sent to the PID the file records, and it is sent
  when that process is alive.\<close>

definition pid_fallback ::
  "env \<Rightarrow> Driver \<Rightarrow> world \<Rightarrow> string \<Rightarrow> signal \<Rightarrow> event list \<Rightarrow> bool" where
  "pid_fallback E d w request sig hv \<longleftrightarrow>
     (fst (SetVFKitState E d request w) = None \<longrightarrow> hv = [])
   \<and> (fst (SetVFKitState E d request w) \<noteq> None
        \<longrightarrow> hv \<noteq> [] \<and> hd hv = EvReadPidfile (pidfilePath E d))
   \<and> (\<forall>e \<in> set hv. \<not> is_helper_event e)
   \<and> (case read_pidfile E (pidfilePath E d) w of
        Inl err \<Rightarrow> signals_of hv = []
      | Inr pid \<Rightarrow>
          (\<forall>x \<in> set (signals_of hv). x = (sig, pid, ''vfkit''))
          \<and> (fst (SetVFKitState E d request w) \<noteq> None
               \<and> proc_exists E (now w + 2) pid ''vfkit'' = Inr True
              \<longrightarrow> signals_of hv = [(sig, pid, ''vfkit'')]))"

text \<open>The retry budget as the specification words it: 60 times a multiplier that is 3
  under nested virtualisation and 1 otherwise. The number of lookups among some events.\<close>

definition retry_budget :: "env \<Rightarrow> nat" where
  "retry_budget E = 60 * (if NestedVM E then 3 else 1)"

fun attempts :: "event list \<Rightarrow> nat" where
  "attempts [] = 0"
| "attempts (EvLookup mac # es) = Suc (attempts es)"
| "attempts (e # es) = attempts es"

text \<open>A lease that appears at the second lookup (the lookups of one \<open>setupIP\<close> call from an
  empty trace happen at the times 0, 2, 4, ...).\<close>

definition env_lease_second :: env where
  "env_lease_second =
     env0\<lparr>GetIPAddressByMACAddress :=
            (\<lambda>t mac. if t = 2 then (''192.168.64.2'', None)
                      else ([], Some (ErrMsg ''no lease'')))\<rparr>"

text \<open>A lookup that always fails with the bootpd signature, with a firewall that can be
  unblocked and with one that cannot.\<close>

definition env_bootpd :: env where
  "env_bootpd =
     env0\<lparr>GetIPAddressByMACAddress :=
            (\<lambda>t mac. ([], Some (ErrMsg ''could not find an IP address for aa'')))\<rparr>"

definition env_bootpd_blocked :: env where
  "env_bootpd_blocked = env_bootpd\<lparr>UnblockBootpd := (\<lambda>t. Some (ErrMsg ''exit status 1''))\<rparr>"

text \<open>A machine directory that holds the public SSH key; a disk image path that cannot be
  written; a file system that refuses to resize the disk image.\<close>

definition world_key :: world where
  "world_key = \<lparr>files = [''/s/machines/m/id_rsa.pub'' \<mapsto> ''ssh-rsa AAAA''], trace = []\<rparr>"

definition env_readonly :: env where
  "env_readonly = env0\<lparr>write_denied := (\<lambda>path. path = ''/s/machines/m/disk.img'')\<rparr>"

definition env_quota :: env where
  "env_quota = env0\<lparr>truncate_denied := (\<lambda>path n. path = ''/s/machines/m/disk.img'')\<rparr>"


definition after_failed_probe :: "env \<Rightarrow> string \<Rightarrow> nat \<Rightarrow> world \<Rightarrow> world" where
  "after_failed_probe E addr duration w =
     (if net_Dial E (now w) addr = None
      then emit (EvSleep duration) (emit (EvRead addr) (emit (EvDial addr) w))
      else emit (EvDial addr) w)"


fun dials :: "event list \<Rightarrow> nat" where
  "dials [] = 0"
| "dials (EvDial addr # es) = Suc (dials es)"
| "dials (e # es) = dials es"

text \<open>An SSH endpoint that refuses the first connection, resets the second and answers
  the third.\<close>

definition env_ssh_third :: env where
  "env_ssh_third =
     env0\<lparr>net_Dial := (\<lambda>t addr. if t = 0 then Some (ErrMsg ''connection refused'') else None),
          conn_Read := (\<lambda>t addr. if t = 2 then Some (ErrMsg ''connection reset'') else None)\<rparr>"

text \<open>A helper that is already stopped: it has no PID file, or its PID file is stale, that
  is, it records a PID under which no helper process is alive from now on.\<close>

definition helper_stopped :: "env \<Rightarrow> Driver \<Rightarrow> world \<Rightarrow> bool" where
  "helper_stopped E d w \<longleftrightarrow>
     (\<forall>h. VmnetHelper d = Some h \<longrightarrow>
        files w (helper_pidfile h) = None
        \<or> (\<exists>pid. read_pidfile E (helper_pidfile h) w = Inr pid
              \<and> (\<forall>t\<ge>now w. proc_exists E t pid (helper_role h) = Inr False)))"

text \<open>A stopped helper that left its PID file behind (PID 77 is not alive).\<close>

definition world_helper_stale :: world where
  "world_helper_stale =
     \<lparr>files = [''/s/machines/m/vmnet-helper.pid'' \<mapsto> ''77''], trace = []\<rparr>"

text \<open>The connections that \<open>n\<close> failed probes open (each is closed when the function
  returns), the durations of the sleeps among some events, and the number of reads.\<close>

fun opened :: "env \<Rightarrow> string \<Rightarrow> nat \<Rightarrow> nat \<Rightarrow> world \<Rightarrow> nat" where
  "opened E addr duration 0 w = 0"
| "opened E addr duration (Suc n) w =
     (if net_Dial E (now w) addr = None then 1 else 0)
     + opened E addr duration n (after_failed_probe E addr duration w)"

fun sleeps :: "event list \<Rightarrow> nat list" where
  "sleeps [] = []"
| "sleeps (EvSleep t # es) = t # sleeps es"
| "sleeps (e # es) = sleeps es"

fun reads :: "event list \<Rightarrow> nat" where
  "reads [] = 0"
| "reads (EvRead addr # es) = Suc (reads es)"
| "reads (e # es) = reads es"

section \<open>Properties\<close>

lemmas path_defs = pidfilePath_def sockfilePath_def diskPath_def publicSSHKeyPath_def
  sshKeyPath_def machineDir_def GetMachineName_def pidFileName_def sockFilename_def

lemmas example_defs = env0_def drv0_def helper0_def world0_def env_helper_running_def
  drv_helper_def world_stale_def env_unreadable_def env_http500_def env_vfkit_running_def
  env_lease_second_def env_bootpd_def env_bootpd_blocked_def world_key_def env_readonly_def
  env_quota_def env_ssh_third_def world_helper_stale_def

lemmas proc_defs = process_ReadPidfile_def process_Exists_def process_Terminate_def
  process_Kill_def os_Remove_def read_pidfile_def proc_exists_def remove_file_def
  signal_process_def now_def emit_def

lemmas state_defs = GetState_def getVfkitState_def getVmnetHelperState_def
  Helper_GetState_def QueryState_def Let_def

subsection \<open>State queries\<close>

lemma getVfkitState_stale:
  assumes "files w (pidfilePath E d) = Some data"
    and "\<not> read_denied E (pidfilePath E d)"
    and "pid_of_bytes E data = Some pid"
    and "proc_exists E (Suc (now w)) pid ''vfkit'' = Inr False"
  shows "getVfkitState E d w =
           ((Stopped, None),
            snd (os_Remove E (pidfilePath E d)
                  (emit (EvFindProcess pid ''vfkit'')
                     (emit (EvReadPidfile (pidfilePath E d)) w))))"
  using assms
  by (simp add: getVfkitState_def process_ReadPidfile_def process_Exists_def read_pidfile_def
      now_def emit_def Let_def split: prod.splits option.splits)

lemma os_Remove_files:
  "\<not> remove_denied E p \<Longrightarrow> files (snd (os_Remove E p w)) p = None"
  by (simp add: os_Remove_def remove_file_def emit_def split: option.splits)

lemma os_Remove_trace:
  "trace (snd (os_Remove E p w)) = trace w @ [EvRemove p]"
  by (simp add: os_Remove_def remove_file_def emit_def split: option.splits)

lemma GetState_of_Stopped:
  "getVfkitState E d w = ((Stopped, None), w1) \<Longrightarrow>
   GetState E d w = getVmnetHelperState E d w1"
  by (simp add: GetState_def)

text \<open>C1, as stated, fails: with a stale hypervisor PID file (PID 42 is recorded and no
  such process is alive) and a running network helper, GetState returns Running, not
  Stopped.\<close>

theorem GetState_stale_pidfile_counterexample:
  "files world_stale (pidfilePath env_helper_running drv_helper) = Some ''42''
   \<and> read_pidfile env_helper_running (pidfilePath env_helper_running drv_helper) world_stale
        = Inr 42
   \<and> proc_exists env_helper_running (Suc (now world_stale)) 42 ''vfkit'' = Inr False
   \<and> fst (GetState env_helper_running drv_helper world_stale) = (Running, None)
   \<and> fst (GetState env_helper_running drv_helper world_stale) \<noteq> (Stopped, None)"
  by (simp add: example_defs path_defs proc_defs state_defs)

text \<open>C1, amended: when the hypervisor PID file exists and is readable, and the PID it
  records does not refer to a live process named vfkit, the hypervisor query
  \<open>getVfkitState\<close> reports Stopped with no error after calling \<open>os.Remove\<close> on the PID file;
  the file is gone afterwards unless that removal is refused (which the code only logs).
  GetState then returns what the network helper's query returns, which is Stopped with no
  error when the driver has no helper.\<close>

theorem GetState_stale_pidfile:
  assumes "files w (pidfilePath E d) = Some data"
    and "\<not> read_denied E (pidfilePath E d)"
    and "pid_of_bytes E data = Some pid"
    and "proc_exists E (Suc (now w)) pid ''vfkit'' = Inr False"
  shows "\<exists>w1. getVfkitState E d w = ((Stopped, None), w1)
           \<and> EvRemove (pidfilePath E d) \<in> set (trace w1)
           \<and> (\<not> remove_denied E (pidfilePath E d) \<longrightarrow> files w1 (pidfilePath E d) = None)
           \<and> GetState E d w = getVmnetHelperState E d w1
           \<and> (VmnetHelper d = None \<longrightarrow> GetState E d w = ((Stopped, None), w1))"
proof -
  let ?w1 = "snd (os_Remove E (pidfilePath E d)
                  (emit (EvFindProcess pid ''vfkit'')
                     (emit (EvReadPidfile (pidfilePath E d)) w)))"
  have q: "getVfkitState E d w = ((Stopped, None), ?w1)"
    using assms by (rule getVfkitState_stale)
  have g: "GetState E d w = getVmnetHelperState E d ?w1"
    using q by (rule GetState_of_Stopped)
  have r: "EvRemove (pidfilePath E d) \<in> set (trace ?w1)"
    by (simp add: os_Remove_trace)
  have f: "\<not> remove_denied E (pidfilePath E d) \<longrightarrow> files ?w1 (pidfilePath E d) = None"
    by (simp add: os_Remove_files)
  have n: "VmnetHelper d = None \<longrightarrow> GetState E d w = ((Stopped, None), ?w1)"
    using g by (simp add: getVmnetHelperState_def)
  from q r f g n show ?thesis
    by (intro exI [of _ ?w1] conjI)
qed

text \<open>The amended C1 on the concrete machine without a helper: the stale PID file is
  removed and GetState is Stopped.\<close>

theorem GetState_stale_pidfile_witness:
  "files world_stale (pidfilePath env0 drv0) = Some ''42''
   \<and> \<not> read_denied env0 (pidfilePath env0 drv0)
   \<and> pid_of_bytes env0 ''42'' = Some 42
   \<and> proc_exists env0 (Suc (now world_stale)) 42 ''vfkit'' = Inr False
   \<and> fst (GetState env0 drv0 world_stale) = (Stopped, None)
   \<and> files (snd (GetState env0 drv0 world_stale)) (pidfilePath env0 drv0) = None"
  using GetState_stale_pidfile [of world_stale env0 drv0 "''42''" 42]
  by (simp add: example_defs path_defs proc_defs state_defs)

text \<open>C9, as stated, fails: when the hypervisor PID file cannot be read, the hypervisor
  query reports Error (a state other than Running), the helper is Running, and GetState
  returns Error, not Running.\<close>

theorem GetState_Running_dominates_counterexample:
  "fst (getVfkitState env_unreadable drv_helper world_stale)
       = (Error, Some (ErrMsg ''permission denied''))
   \<and> fst (getVmnetHelperState env_unreadable drv_helper
            (snd (getVfkitState env_unreadable drv_helper world_stale))) = (Running, None)
   \<and> fst (GetState env_unreadable drv_helper world_stale) \<noteq> (Running, None)"
  by (simp add: example_defs path_defs proc_defs state_defs)

text \<open>C9, amended: GetState returns Running when the hypervisor query succeeds and either
  it reports Running or the network helper's query, made after it, reports Running. When
  the hypervisor query fails, GetState returns Error with that error, whatever the helper's
  state is.\<close>

theorem GetState_Running_dominates:
  "(\<forall>s. fst (getVfkitState E d w) = (s, None)
        \<and> (s = Running
           \<or> fst (getVmnetHelperState E d (snd (getVfkitState E d w))) = (Running, None))
        \<longrightarrow> fst (GetState E d w) = (Running, None))
   \<and> (\<forall>s err. fst (getVfkitState E d w) = (s, Some err)
        \<longrightarrow> fst (GetState E d w) = (Error, Some err))"
  by (cases "getVfkitState E d w") (auto simp: GetState_def split: option.splits)

text \<open>The amended C9 on three machines: a live hypervisor; a stale hypervisor PID file
  beside a running helper; an unreadable hypervisor PID file beside a running helper.\<close>

theorem GetState_Running_dominates_witness:
  "fst (getVfkitState env_vfkit_running drv0 world_stale) = (Running, None)
   \<and> fst (GetState env_vfkit_running drv0 world_stale) = (Running, None)
   \<and> fst (getVfkitState env_helper_running drv_helper world_stale) = (Stopped, None)
   \<and> fst (getVmnetHelperState env_helper_running drv_helper
            (snd (getVfkitState env_helper_running drv_helper world_stale))) = (Running, None)
   \<and> fst (GetState env_helper_running drv_helper world_stale) = (Running, None)
   \<and> fst (getVfkitState env_unreadable drv_helper world_stale)
       = (Error, Some (ErrMsg ''permission denied''))
   \<and> fst (GetState env_unreadable drv_helper world_stale)
       = (Error, Some (ErrMsg ''permission denied''))"
  using GetState_Running_dominates [of env_vfkit_running drv0 world_stale]
    GetState_Running_dominates [of env_helper_running drv_helper world_stale]
    GetState_Running_dominates [of env_unreadable drv_helper world_stale]
  by (simp add: example_defs path_defs proc_defs state_defs)

subsection \<open>The control channel\<close>

lemma SetVFKitState_transport_error:
  "json_Marshal E \<lparr>State = s\<rparr> = Inr data \<Longrightarrow>
   http_Post E (now w) (sockfilePath E d) ''http://_/vm/state'' data = Inl err \<Longrightarrow>
   SetVFKitState E d s w
     = (Some err, emit (EvPost (sockfilePath E d) ''http://_/vm/state'' data) w)"
  by (simp add: SetVFKitState_def)

text \<open>C10: SetVFKitState returns nil whenever the POST over the unix socket returns a
  response, whatever the response is: its status code is never read.\<close>

theorem SetVFKitState_ignores_status:
  assumes "json_Marshal E \<lparr>State = s\<rparr> = Inr data"
    and "http_Post E (now w) (sockfilePath E d) ''http://_/vm/state'' data = Inr response"
  shows "SetVFKitState E d s w
           = (None, emit (EvPost (sockfilePath E d) ''http://_/vm/state'' data) w)"
  using assms by (simp add: SetVFKitState_def)

text \<open>C10 on a control socket that answers with status 500: the call succeeds.\<close>

theorem SetVFKitState_ignores_status_witness:
  "json_Marshal env_http500 \<lparr>State = ''Stop''\<rparr> = Inr ''{\"state\":\"Stop\"}''
   \<and> http_Post env_http500 (now world0) (sockfilePath env_http500 drv0) ''http://_/vm/state''
        ''{\"state\":\"Stop\"}'' = Inr \<lparr>StatusCode = 500, Body = []\<rparr>
   \<and> fst (SetVFKitState env_http500 drv0 ''Stop'' world0) = None"
  using SetVFKitState_ignores_status
    [of env_http500 "''Stop''" "''{\"state\":\"Stop\"}''" world0 drv0
      "\<lparr>StatusCode = 500, Body = []\<rparr>"]
  by (simp add: example_defs json_Marshal_def)

subsection \<open>Stop and Kill\<close>

lemma emit_files [simp]: "files (emit e w) = files w"
  by (simp add: emit_def)

lemma emit_trace [simp]: "trace (emit e w) = trace w @ [e]"
  by (simp add: emit_def)

lemma now_emit [simp]: "now (emit e w) = Suc (now w)"
  by (simp add: now_def)

lemma read_pidfile_emit [simp]: "read_pidfile E p (emit e w) = read_pidfile E p w"
  by (simp add: read_pidfile_def)


lemma SetVFKitState_cases:
  obtains (ok) data where "json_Marshal E \<lparr>State = s\<rparr> = Inr data"
      "SetVFKitState E d s w
         = (None, emit (EvPost (sockfilePath E d) ''http://_/vm/state'' data) w)"
  | (fail) data err where "json_Marshal E \<lparr>State = s\<rparr> = Inr data"
      "SetVFKitState E d s w
         = (Some err, emit (EvPost (sockfilePath E d) ''http://_/vm/state'' data) w)"
  by (cases "http_Post E (now w) (sockfilePath E d) ''http://_/vm/state''
               (''{\"state\":'' @ json_string E s @ ''}'')")
     (auto simp: SetVFKitState_def json_Marshal_def Let_def)

lemma SetVFKitState_files [simp]: "files (snd (SetVFKitState E d s w)) = files w"
  by (cases rule: SetVFKitState_cases [of E s d w]) simp_all












subsection \<open>The order of a shutdown\<close>

lemma remove_file_trace [simp]: "trace (snd (remove_file E p w)) = trace w"
  by (simp add: remove_file_def split: option.splits)

lemma SignalHandle_trace [simp]: "trace (snd (SignalHandle E sig p role w)) = trace w"
  by (simp add: SignalHandle_def split: sum.splits bool.splits)

lemma stopVmnetHelper_trace:
  "trace (snd (stopVmnetHelper E d w))
     = trace w @ (case VmnetHelper d of None \<Rightarrow> [] | Some h \<Rightarrow> [EvHelper ''Stop''])"
  by (simp add: stopVmnetHelper_def Helper_Stop_def split: option.splits)

lemma killVmnetHelper_trace:
  "trace (snd (killVmnetHelper E d w))
     = trace w @ (case VmnetHelper d of None \<Rightarrow> [] | Some h \<Rightarrow> [EvHelper ''Kill''])"
  by (simp add: killVmnetHelper_def Helper_Kill_def split: option.splits)

lemma signal_process_trace:
  "trace (snd (signal_process E sig pid name w))
     = trace w @ EvFindProcess pid name #
         (if proc_exists E (now w) pid name = Inr True then [EvSignal sig pid name] else [])"
  by (simp add: signal_process_def Let_def split: sum.splits bool.splits)

lemma stopVfkit_events:
  "\<exists>data hv. json_Marshal E \<lparr>State = ''Stop''\<rparr> = Inr data
     \<and> trace (snd (stopVfkit E d w))
         = trace w @ EvPost (sockfilePath E d) ''http://_/vm/state'' data # hv
     \<and> pid_fallback E d w ''Stop'' SIGTERM hv"
proof (cases rule: SetVFKitState_cases [of E "''Stop''" d w])
  case (ok data)
  then show ?thesis
    by (simp add: stopVfkit_def pid_fallback_def split: sum.splits)
next
  case (fail data err)
  show ?thesis
  proof (cases "read_pidfile E (pidfilePath E d) w")
    case (Inl e)
    then show ?thesis
      using fail
      by (simp add: stopVfkit_def process_ReadPidfile_def Let_def pid_fallback_def)
  next
    case (Inr pid)
    let ?w2 = "emit (EvReadPidfile (pidfilePath E d))
                 (emit (EvPost (sockfilePath E d) ''http://_/vm/state'' data) w)"
    obtain r w3 where t: "process_Terminate E pid ''vfkit'' ?w2 = (r, w3)"
      by (cases "process_Terminate E pid ''vfkit'' ?w2")
    have tr: "trace w3 = trace ?w2 @ EvFindProcess pid ''vfkit'' #
         (if proc_exists E (now w + 2) pid ''vfkit'' = Inr True
          then [EvSignal SIGTERM pid ''vfkit''] else [])"
      using t signal_process_trace [of E SIGTERM pid "''vfkit''" ?w2]
      by (simp add: process_Terminate_def)
    show ?thesis
      using fail Inr t tr
      by (cases r)
        (auto simp: stopVfkit_def process_ReadPidfile_def Let_def os_Remove_trace
          pid_fallback_def)
  qed
qed

lemma killVfkit_events:
  "\<exists>data hv. json_Marshal E \<lparr>State = ''HardStop''\<rparr> = Inr data
     \<and> trace (snd (killVfkit E d w))
         = trace w @ EvPost (sockfilePath E d) ''http://_/vm/state'' data # hv
     \<and> pid_fallback E d w ''HardStop'' SIGKILL hv"
proof (cases rule: SetVFKitState_cases [of E "''HardStop''" d w])
  case (ok data)
  then show ?thesis
    by (simp add: killVfkit_def pid_fallback_def split: sum.splits)
next
  case (fail data err)
  show ?thesis
  proof (cases "read_pidfile E (pidfilePath E d) w")
    case (Inl e)
    then show ?thesis
      using fail
      by (simp add: killVfkit_def process_ReadPidfile_def Let_def pid_fallback_def)
  next
    case (Inr pid)
    let ?w2 = "emit (EvReadPidfile (pidfilePath E d))
                 (emit (EvPost (sockfilePath E d) ''http://_/vm/state'' data) w)"
    obtain r w3 where t: "process_Kill E pid ''vfkit'' ?w2 = (r, w3)"
      by (cases "process_Kill E pid ''vfkit'' ?w2")
    have tr: "trace w3 = trace ?w2 @ EvFindProcess pid ''vfkit'' #
         (if proc_exists E (now w + 2) pid ''vfkit'' = Inr True
          then [EvSignal SIGKILL pid ''vfkit''] else [])"
      using t signal_process_trace [of E SIGKILL pid "''vfkit''" ?w2]
      by (simp add: process_Kill_def)
    show ?thesis
      using fail Inr t tr
      by (cases r)
        (auto simp: killVfkit_def process_ReadPidfile_def Let_def os_Remove_trace
          pid_fallback_def)
  qed
qed

lemma Stop_trace:
  "trace (snd (Stop E d w))
     = trace (snd (stopVfkit E d w))
       @ (if fst (stopVfkit E d w) = None \<and> VmnetHelper d \<noteq> None
          then [EvHelper ''Stop''] else [])"
  by (cases "stopVfkit E d w")
    (auto simp: Stop_def stopVmnetHelper_trace split: option.splits)

lemma Kill_trace:
  "trace (snd (Kill E d w))
     = trace (snd (killVfkit E d w))
       @ (if fst (killVfkit E d w) = None \<and> VmnetHelper d \<noteq> None
          then [EvHelper ''Kill''] else [])"
  by (cases "killVfkit E d w")
    (auto simp: Kill_def killVmnetHelper_trace split: option.splits)

text \<open>C5: the events a call of Stop adds are the control request Stop, then the events
  \<open>hv\<close> of the hypervisor fallback, then the events \<open>hp\<close> of the network helper. By
  \<open>pid_fallback\<close>, the fallback is empty when the request succeeded; when it failed, the
  fallback starts by reading the hypervisor PID file, and the only signal it sends is
  SIGTERM to the PID recorded there (which it does send when that process is alive). The
  helper's part is its Stop, or nothing, after everything done to the hypervisor. Kill is
  the same with the request HardStop, the signal SIGKILL and the helper's Kill.\<close>

theorem Stop_Kill_order:
  "(\<exists>data hv hp. json_Marshal E \<lparr>State = ''Stop''\<rparr> = Inr data
     \<and> trace (snd (Stop E d w))
         = trace w @ EvPost (sockfilePath E d) ''http://_/vm/state'' data # hv @ hp
     \<and> pid_fallback E d w ''Stop'' SIGTERM hv
     \<and> hp = (if fst (stopVfkit E d w) = None \<and> VmnetHelper d \<noteq> None
             then [EvHelper ''Stop''] else []))
   \<and> (\<exists>data hv hp. json_Marshal E \<lparr>State = ''HardStop''\<rparr> = Inr data
     \<and> trace (snd (Kill E d w))
         = trace w @ EvPost (sockfilePath E d) ''http://_/vm/state'' data # hv @ hp
     \<and> pid_fallback E d w ''HardStop'' SIGKILL hv
     \<and> hp = (if fst (killVfkit E d w) = None \<and> VmnetHelper d \<noteq> None
             then [EvHelper ''Kill''] else []))"
proof (rule conjI)
  from stopVfkit_events [of E d w] obtain data hv where
    m: "json_Marshal E \<lparr>State = ''Stop''\<rparr> = Inr data"
    and t: "trace (snd (stopVfkit E d w))
         = trace w @ EvPost (sockfilePath E d) ''http://_/vm/state'' data # hv"
    and f: "pid_fallback E d w ''Stop'' SIGTERM hv"
    by blast
  let ?hp = "if fst (stopVfkit E d w) = None \<and> VmnetHelper d \<noteq> None
             then [EvHelper ''Stop''] else []"
  have "trace (snd (Stop E d w))
         = trace w @ EvPost (sockfilePath E d) ''http://_/vm/state'' data # hv @ ?hp"
    by (simp only: Stop_trace t append_assoc append_Cons)
  with m f show "\<exists>data hv hp. json_Marshal E \<lparr>State = ''Stop''\<rparr> = Inr data
     \<and> trace (snd (Stop E d w))
         = trace w @ EvPost (sockfilePath E d) ''http://_/vm/state'' data # hv @ hp
     \<and> pid_fallback E d w ''Stop'' SIGTERM hv
     \<and> hp = (if fst (stopVfkit E d w) = None \<and> VmnetHelper d \<noteq> None
             then [EvHelper ''Stop''] else [])"
    by blast
next
  from killVfkit_events [of E d w] obtain data hv where
    m: "json_Marshal E \<lparr>State = ''HardStop''\<rparr> = Inr data"
    and t: "trace (snd (killVfkit E d w))
         = trace w @ EvPost (sockfilePath E d) ''http://_/vm/state'' data # hv"
    and f: "pid_fallback E d w ''HardStop'' SIGKILL hv"
    by blast
  let ?hp = "if fst (killVfkit E d w) = None \<and> VmnetHelper d \<noteq> None
             then [EvHelper ''Kill''] else []"
  have "trace (snd (Kill E d w))
         = trace w @ EvPost (sockfilePath E d) ''http://_/vm/state'' data # hv @ ?hp"
    by (simp only: Kill_trace t append_assoc append_Cons)
  with m f show "\<exists>data hv hp. json_Marshal E \<lparr>State = ''HardStop''\<rparr> = Inr data
     \<and> trace (snd (Kill E d w))
         = trace w @ EvPost (sockfilePath E d) ''http://_/vm/state'' data # hv @ hp
     \<and> pid_fallback E d w ''HardStop'' SIGKILL hv
     \<and> hp = (if fst (killVfkit E d w) = None \<and> VmnetHelper d \<noteq> None
             then [EvHelper ''Kill''] else [])"
    by blast
qed

text \<open>C5 on three machines with a helper: a live hypervisor behind a socket that refuses
  the request (fallback, signal, then helper), the same hypervisor killed, and a socket
  that answers the request (no fallback, then helper).\<close>

theorem Stop_Kill_order_witness:
  "fst (SetVFKitState env_vfkit_running drv_helper ''Stop'' world_stale) \<noteq> None
   \<and> read_pidfile env_vfkit_running (pidfilePath env_vfkit_running drv_helper) world_stale
        = Inr 42
   \<and> proc_exists env_vfkit_running (now world_stale + 2) 42 ''vfkit'' = Inr True
   \<and> trace (snd (Stop env_vfkit_running drv_helper world_stale))
        = [EvPost ''/s/machines/m/vfkit.sock'' ''http://_/vm/state'' ''{\"state\":\"Stop\"}'',
           EvReadPidfile ''/s/machines/m/vfkit.pid'', EvFindProcess 42 ''vfkit'',
           EvSignal SIGTERM 42 ''vfkit'', EvHelper ''Stop'']
   \<and> trace (snd (Kill env_vfkit_running drv_helper world_stale))
        = [EvPost ''/s/machines/m/vfkit.sock'' ''http://_/vm/state''
             ''{\"state\":\"HardStop\"}'',
           EvReadPidfile ''/s/machines/m/vfkit.pid'', EvFindProcess 42 ''vfkit'',
           EvSignal SIGKILL 42 ''vfkit'', EvHelper ''Kill'']
   \<and> fst (SetVFKitState env_http500 drv_helper ''Stop'' world_stale) = None
   \<and> trace (snd (Stop env_http500 drv_helper world_stale))
        = [EvPost ''/s/machines/m/vfkit.sock'' ''http://_/vm/state'' ''{\"state\":\"Stop\"}'',
           EvHelper ''Stop'']"
  using Stop_Kill_order [of env_vfkit_running drv_helper world_stale]
    Stop_Kill_order [of env_http500 drv_helper world_stale]
  by (simp add: example_defs path_defs proc_defs Stop_def Kill_def stopVfkit_def killVfkit_def
      stopVmnetHelper_def killVmnetHelper_def Helper_Stop_def Helper_Kill_def SignalHandle_def
      SetVFKitState_def json_Marshal_def Let_def)

subsection \<open>IP resolution: the retry loop\<close>


declare setupIP_loop.simps [simp del]

lemma loop_fail_step:
  "i < n \<Longrightarrow> GetIPAddressByMACAddress E (now w) mac = (ip, Some e) \<Longrightarrow>
   setupIP_loop E mac n i err d w
     = setupIP_loop E mac n (Suc i) (Some (Wrap e ''failed to get IP address''))
         (d\<lparr>IPAddress := ip\<rparr>) (emit (EvSleep (2 * Second)) (emit (EvLookup mac) w))"
  by (subst setupIP_loop.simps) (simp add: getIP_def)

lemma loop_ok_step:
  "i < n \<Longrightarrow> GetIPAddressByMACAddress E (now w) mac = (ip, None) \<Longrightarrow>
   setupIP_loop E mac n i err d w = (None, d\<lparr>IPAddress := ip\<rparr>, emit (EvLookup mac) w)"
  by (subst setupIP_loop.simps) (simp add: getIP_def)

lemma loop_done:
  "\<not> i < n \<Longrightarrow> setupIP_loop E mac n i err d w = (err, d, w)"
  by (subst setupIP_loop.simps) simp

lemma failing_lookup:
  "snd (GetIPAddressByMACAddress E t mac) \<noteq> None \<Longrightarrow>
   \<exists>ip e. GetIPAddressByMACAddress E t mac = (ip, Some e)"
  by (cases "GetIPAddressByMACAddress E t mac") auto

lemma loop_success:
  assumes "i + m < n"
    and "\<forall>j<m. snd (GetIPAddressByMACAddress E (now w + 2 * j) mac) \<noteq> None"
    and "GetIPAddressByMACAddress E (now w + 2 * m) mac = (ip, None)"
  shows "setupIP_loop E mac n i err d w
     = (None, d\<lparr>IPAddress := ip\<rparr>,
        w\<lparr>trace := trace w @ concat (replicate m [EvLookup mac, EvSleep (2 * Second)])
                     @ [EvLookup mac]\<rparr>)"
  using assms
proof (induction m arbitrary: i err d w)
  case 0
  then show ?case
    by (simp add: loop_ok_step emit_def)
next
  case (Suc m)
  from Suc.prems(2) have "snd (GetIPAddressByMACAddress E (now w) mac) \<noteq> None"
    by (metis add.right_neutral mult_0_right zero_less_Suc)
  then obtain ip0 e0 where g: "GetIPAddressByMACAddress E (now w) mac = (ip0, Some e0)"
    using failing_lookup by blast
  let ?w = "emit (EvSleep (2 * Second)) (emit (EvLookup mac) w)"
  have n: "now ?w = now w + 2"
    by (simp add: now_def emit_def)
  have s: "setupIP_loop E mac n i err d w
     = setupIP_loop E mac n (Suc i) (Some (Wrap e0 ''failed to get IP address''))
         (d\<lparr>IPAddress := ip0\<rparr>) ?w"
    using Suc.prems(1) g by (intro loop_fail_step) simp_all
  have a: "\<forall>j<m. snd (GetIPAddressByMACAddress E (now ?w + 2 * j) mac) \<noteq> None"
  proof (intro allI impI)
    fix j assume "j < m"
    then have "Suc j < Suc m" by simp
    with Suc.prems(2) have "snd (GetIPAddressByMACAddress E (now w + 2 * Suc j) mac) \<noteq> None"
      by blast
    then show "snd (GetIPAddressByMACAddress E (now ?w + 2 * j) mac) \<noteq> None"
      by (simp add: n add.commute add.left_commute)
  qed
  have b: "GetIPAddressByMACAddress E (now ?w + 2 * m) mac = (ip, None)"
    using Suc.prems(3) by (simp add: n add.commute add.left_commute)
  have "Suc i + m < n"
    using Suc.prems(1) by simp
  from Suc.IH [OF this a b] show ?case
    by (simp add: s emit_def)
qed

lemma loop_exhausted:
  assumes "i + Suc m = n"
    and "\<forall>j<Suc m. snd (GetIPAddressByMACAddress E (now w + 2 * j) mac) \<noteq> None"
    and "GetIPAddressByMACAddress E (now w + 2 * m) mac = (ip, Some e)"
  shows "setupIP_loop E mac n i err d w
     = (Some (Wrap e ''failed to get IP address''), d\<lparr>IPAddress := ip\<rparr>,
        w\<lparr>trace := trace w @ concat (replicate (Suc m) [EvLookup mac, EvSleep (2 * Second)])\<rparr>)"
  using assms
proof (induction m arbitrary: i err d w)
  case 0
  then have "i < n" and "\<not> Suc i < n"
    by simp_all
  with 0 show ?case
    by (simp add: loop_fail_step loop_done emit_def)
next
  case (Suc m)
  from Suc.prems(2) have "snd (GetIPAddressByMACAddress E (now w) mac) \<noteq> None"
    by (metis add.right_neutral mult_0_right zero_less_Suc)
  then obtain ip0 e0 where g: "GetIPAddressByMACAddress E (now w) mac = (ip0, Some e0)"
    using failing_lookup by blast
  let ?w = "emit (EvSleep (2 * Second)) (emit (EvLookup mac) w)"
  have n: "now ?w = now w + 2"
    by (simp add: now_def emit_def)
  have s: "setupIP_loop E mac n i err d w
     = setupIP_loop E mac n (Suc i) (Some (Wrap e0 ''failed to get IP address''))
         (d\<lparr>IPAddress := ip0\<rparr>) ?w"
    using Suc.prems(1) g by (intro loop_fail_step) simp_all
  have a: "\<forall>j<Suc m. snd (GetIPAddressByMACAddress E (now ?w + 2 * j) mac) \<noteq> None"
  proof (intro allI impI)
    fix j assume "j < Suc m"
    then have "Suc j < Suc (Suc m)" by simp
    with Suc.prems(2) have "snd (GetIPAddressByMACAddress E (now w + 2 * Suc j) mac) \<noteq> None"
      by blast
    then show "snd (GetIPAddressByMACAddress E (now ?w + 2 * j) mac) \<noteq> None"
      by (simp add: n add.commute add.left_commute)
  qed
  have b: "GetIPAddressByMACAddress E (now ?w + 2 * m) mac = (ip, Some e)"
    using Suc.prems(3) by (simp add: n add.commute add.left_commute)
  have "Suc i + Suc m = n"
    using Suc.prems(1) by simp
  from Suc.IH [OF this a b] show ?case
    by (simp add: s emit_def)
qed

lemma attempts_append [simp]: "attempts (xs @ ys) = attempts xs + attempts ys"
  by (induction xs rule: attempts.induct) simp_all

lemma attempts_retries [simp]:
  "attempts (concat (replicate k [EvLookup mac, EvSleep t])) = k"
  by (induction k) simp_all

lemma count_unblock_retries [simp]:
  "count_list (concat (replicate k [EvLookup mac, EvSleep t])) EvUnblockBootpd = 0"
  by (induction k) simp_all

lemma retry_budget_pos: "0 < retry_budget E"
  by (simp add: retry_budget_def)

lemma setupIP_loop_budget:
  "setupIP E mac d w =
     (case setupIP_loop E mac (retry_budget E) 0 None d w of
        (None, d1, w1) \<Rightarrow> (Returns None, d1, w1)
      | (Some err, d1, w1) \<Rightarrow>
          if \<not> isBootpdError err then
            (Returns (Some (Wrap err ''IP address never found in dhcp leases file'')), d1, w1)
          else
            (case UnblockBootpd E (now w1) of
               Some unblockErr \<Rightarrow>
                 (Exits ''IfBootpdFirewall'' ''ip not found'' err, d1, emit EvUnblockBootpd w1)
             | None \<Rightarrow>
                 (Returns (Some (ErrMsg (''ip not found: '' @ Error_msg err))), d1,
                  emit EvUnblockBootpd w1)))"
  by (simp add: setupIP_def retry_budget_def Let_def)

lemma setupIP_success:
  assumes "1 \<le> k" and "k \<le> retry_budget E"
    and "\<forall>j<k - 1. snd (GetIPAddressByMACAddress E (now w + 2 * j) mac) \<noteq> None"
    and "GetIPAddressByMACAddress E (now w + 2 * (k - 1)) mac = (ip, None)"
  shows "setupIP E mac d w
     = (Returns None, d\<lparr>IPAddress := ip\<rparr>,
        w\<lparr>trace := trace w @ concat (replicate (k - 1) [EvLookup mac, EvSleep (2 * Second)])
                     @ [EvLookup mac]\<rparr>)"
proof -
  have "0 + (k - 1) < retry_budget E"
    using assms(1,2) by simp
  from loop_success [OF this assms(3,4)] show ?thesis
    by (simp add: setupIP_loop_budget)
qed

lemma now_retries:
  "now (w\<lparr>trace := trace w @ concat (replicate k [EvLookup mac, EvSleep t])\<rparr>) = now w + 2 * k"
  by (induction k) (simp_all add: now_def)

lemma setupIP_loop_exhausted:
  assumes "\<forall>j<retry_budget E. snd (GetIPAddressByMACAddress E (now w + 2 * j) mac) \<noteq> None"
    and "GetIPAddressByMACAddress E (now w + 2 * (retry_budget E - 1)) mac = (ip, Some e)"
  shows "setupIP_loop E mac (retry_budget E) 0 None d w
     = (Some (Wrap e ''failed to get IP address''), d\<lparr>IPAddress := ip\<rparr>,
        w\<lparr>trace := trace w
              @ concat (replicate (retry_budget E) [EvLookup mac, EvSleep (2 * Second)])\<rparr>)"
proof -
  obtain m where m: "retry_budget E = Suc m"
    using retry_budget_pos [of E] by (cases "retry_budget E") simp_all
  have "0 + Suc m = retry_budget E"
    using m by simp
  from loop_exhausted [OF this, of E w mac ip e None d] assms show ?thesis
    by (simp add: m)
qed

lemma setupIP_hard_failure:
  assumes "\<forall>j<retry_budget E. snd (GetIPAddressByMACAddress E (now w + 2 * j) mac) \<noteq> None"
    and "GetIPAddressByMACAddress E (now w + 2 * (retry_budget E - 1)) mac = (ip, Some e)"
    and "\<not> isBootpdError (Wrap e ''failed to get IP address'')"
  shows "setupIP E mac d w
     = (Returns (Some (Wrap (Wrap e ''failed to get IP address'')
                         ''IP address never found in dhcp leases file'')),
        d\<lparr>IPAddress := ip\<rparr>,
        w\<lparr>trace := trace w
              @ concat (replicate (retry_budget E) [EvLookup mac, EvSleep (2 * Second)])\<rparr>)"
  using assms(3)
  by (simp add: setupIP_loop_budget setupIP_loop_exhausted [OF assms(1,2)])

lemma setupIP_unblocked:
  assumes "\<forall>j<retry_budget E. snd (GetIPAddressByMACAddress E (now w + 2 * j) mac) \<noteq> None"
    and "GetIPAddressByMACAddress E (now w + 2 * (retry_budget E - 1)) mac = (ip, Some e)"
    and "isBootpdError (Wrap e ''failed to get IP address'')"
    and "UnblockBootpd E (now w + 2 * retry_budget E) = None"
  shows "setupIP E mac d w
     = (Returns (Some (ErrMsg (''ip not found: ''
                         @ Error_msg (Wrap e ''failed to get IP address'')))),
        d\<lparr>IPAddress := ip\<rparr>,
        emit EvUnblockBootpd
          (w\<lparr>trace := trace w
              @ concat (replicate (retry_budget E) [EvLookup mac, EvSleep (2 * Second)])\<rparr>))"
  using assms(3,4)
  by (simp add: setupIP_loop_budget setupIP_loop_exhausted [OF assms(1,2)] now_retries)

lemma setupIP_exits:
  assumes "\<forall>j<retry_budget E. snd (GetIPAddressByMACAddress E (now w + 2 * j) mac) \<noteq> None"
    and "GetIPAddressByMACAddress E (now w + 2 * (retry_budget E - 1)) mac = (ip, Some e)"
    and "isBootpdError (Wrap e ''failed to get IP address'')"
    and "UnblockBootpd E (now w + 2 * retry_budget E) = Some unblockErr"
  shows "setupIP E mac d w
     = (Exits ''IfBootpdFirewall'' ''ip not found'' (Wrap e ''failed to get IP address''),
        d\<lparr>IPAddress := ip\<rparr>,
        emit EvUnblockBootpd
          (w\<lparr>trace := trace w
              @ concat (replicate (retry_budget E) [EvLookup mac, EvSleep (2 * Second)])\<rparr>))"
  using assms(3,4)
  by (simp add: setupIP_loop_budget setupIP_loop_exhausted [OF assms(1,2)] now_retries)

lemma setupIP_all_fail_trace:
  assumes "\<forall>j<retry_budget E. snd (GetIPAddressByMACAddress E (now w + 2 * j) mac) \<noteq> None"
  shows "\<exists>tl. trace (snd (snd (setupIP E mac d w)))
           = trace w @ concat (replicate (retry_budget E) [EvLookup mac, EvSleep (2 * Second)])
               @ tl
         \<and> (tl = [] \<or> tl = [EvUnblockBootpd])
         \<and> fst (setupIP E mac d w) \<noteq> Returns None"
proof -
  have "retry_budget E - 1 < retry_budget E"
    using retry_budget_pos [of E] by simp
  with assms
  have "snd (GetIPAddressByMACAddress E (now w + 2 * (retry_budget E - 1)) mac) \<noteq> None"
    by blast
  then obtain ip e where
    g: "GetIPAddressByMACAddress E (now w + 2 * (retry_budget E - 1)) mac = (ip, Some e)"
    using failing_lookup by blast
  show ?thesis
  proof (cases "isBootpdError (Wrap e ''failed to get IP address'')")
    case False
    from setupIP_hard_failure [OF assms g False, of d] show ?thesis
      by simp
  next
    case True
    show ?thesis
    proof (cases "UnblockBootpd E (now w + 2 * retry_budget E)")
      case None
      from setupIP_unblocked [OF assms g True None, of d] show ?thesis
        by simp
    next
      case (Some unblockErr)
      from setupIP_exits [OF assms g True Some, of d] show ?thesis
        by simp
    qed
  qed
qed

lemma setupIP_attempts_bound:
  "attempts (drop (length (trace w)) (trace (snd (snd (setupIP E mac d w))))) \<le> retry_budget E"
proof (cases "\<forall>j<retry_budget E.
    snd (GetIPAddressByMACAddress E (now w + 2 * j) mac) \<noteq> None")
  case True
  from setupIP_all_fail_trace [OF True, of d] obtain tl where
    "trace (snd (snd (setupIP E mac d w)))
       = trace w @ concat (replicate (retry_budget E) [EvLookup mac, EvSleep (2 * Second)]) @ tl"
    and "tl = [] \<or> tl = [EvUnblockBootpd]"
    by blast
  then show ?thesis
    by auto
next
  case False
  define P where "P j \<longleftrightarrow> snd (GetIPAddressByMACAddress E (now w + 2 * j) mac) = None" for j
  from False obtain j0 where j0: "j0 < retry_budget E" "P j0"
    by (auto simp: P_def)
  define m where "m = (LEAST j. P j)"
  have pm: "P m"
    unfolding m_def using j0(2) by (rule LeastI)
  have mle: "m \<le> j0"
    unfolding m_def using j0(2) by (rule Least_le)
  have before: "\<forall>j<m. \<not> P j"
    unfolding m_def using not_less_Least by blast
  obtain ip where g: "GetIPAddressByMACAddress E (now w + 2 * m) mac = (ip, None)"
    using pm unfolding P_def by (cases "GetIPAddressByMACAddress E (now w + 2 * m) mac") auto
  have "setupIP E mac d w
     = (Returns None, d\<lparr>IPAddress := ip\<rparr>,
        w\<lparr>trace := trace w
              @ concat (replicate (Suc m - 1) [EvLookup mac, EvSleep (2 * Second)])
              @ [EvLookup mac]\<rparr>)"
    using mle j0(1) before g by (intro setupIP_success) (simp_all add: P_def)
  then show ?thesis
    using mle j0(1) by simp
qed

text \<open>C3: \<open>setupIP\<close> makes at most 60 lookups, or 180 under nested virtualisation. When
  the lookup first succeeds at attempt \<open>k\<close> within that budget, \<open>setupIP\<close> returns nil, has
  stored the address the lookup returned, and has made exactly \<open>k\<close> lookups with a sleep
  of two seconds after each of the \<open>k - 1\<close> failed ones. When every lookup of the budget
  fails, it has made exactly as many lookups as the budget, each followed by the sleep,
  and does not return nil.\<close>

theorem setupIP_retry_budget:
  "(\<forall>k ip. 1 \<le> k \<and> k \<le> retry_budget E
        \<and> (\<forall>j<k - 1. snd (GetIPAddressByMACAddress E (now w + 2 * j) mac) \<noteq> None)
        \<and> GetIPAddressByMACAddress E (now w + 2 * (k - 1)) mac = (ip, None)
      \<longrightarrow> setupIP E mac d w
           = (Returns None, d\<lparr>IPAddress := ip\<rparr>,
              w\<lparr>trace := trace w
                    @ concat (replicate (k - 1) [EvLookup mac, EvSleep (2 * Second)])
                    @ [EvLookup mac]\<rparr>))
   \<and> ((\<forall>j<retry_budget E. snd (GetIPAddressByMACAddress E (now w + 2 * j) mac) \<noteq> None)
      \<longrightarrow> (\<exists>tl. trace (snd (snd (setupIP E mac d w)))
                 = trace w
                   @ concat (replicate (retry_budget E) [EvLookup mac, EvSleep (2 * Second)])
                   @ tl
               \<and> (tl = [] \<or> tl = [EvUnblockBootpd])
               \<and> fst (setupIP E mac d w) \<noteq> Returns None))
   \<and> attempts (drop (length (trace w)) (trace (snd (snd (setupIP E mac d w)))))
        \<le> retry_budget E
   \<and> retry_budget E = (if NestedVM E then 180 else 60)
   \<and> Second = 1000000000"
proof (intro conjI allI impI)
  fix k ip
  assume "1 \<le> k \<and> k \<le> retry_budget E
        \<and> (\<forall>j<k - 1. snd (GetIPAddressByMACAddress E (now w + 2 * j) mac) \<noteq> None)
        \<and> GetIPAddressByMACAddress E (now w + 2 * (k - 1)) mac = (ip, None)"
  then show "setupIP E mac d w
           = (Returns None, d\<lparr>IPAddress := ip\<rparr>,
              w\<lparr>trace := trace w
                    @ concat (replicate (k - 1) [EvLookup mac, EvSleep (2 * Second)])
                    @ [EvLookup mac]\<rparr>)"
    by (intro setupIP_success) simp_all
next
  assume "\<forall>j<retry_budget E. snd (GetIPAddressByMACAddress E (now w + 2 * j) mac) \<noteq> None"
  then show "\<exists>tl. trace (snd (snd (setupIP E mac d w)))
                 = trace w
                   @ concat (replicate (retry_budget E) [EvLookup mac, EvSleep (2 * Second)])
                   @ tl
               \<and> (tl = [] \<or> tl = [EvUnblockBootpd])
               \<and> fst (setupIP E mac d w) \<noteq> Returns None"
    by (rule setupIP_all_fail_trace)
next
  show "attempts (drop (length (trace w)) (trace (snd (snd (setupIP E mac d w)))))
        \<le> retry_budget E"
    by (rule setupIP_attempts_bound)
next
  show "retry_budget E = (if NestedVM E then 180 else 60)"
    by (simp add: retry_budget_def)
next
  show "Second = 1000000000"
    by (simp add: Second_def)
qed

text \<open>C3 where the lease appears at the second lookup (two attempts, one sleep), and
  where it never appears (sixty lookups).\<close>

theorem setupIP_retry_budget_witness:
  "snd (GetIPAddressByMACAddress env_lease_second (now world0 + 2 * 0) ''aa'') \<noteq> None
   \<and> GetIPAddressByMACAddress env_lease_second (now world0 + 2 * (2 - 1)) ''aa''
        = (''192.168.64.2'', None)
   \<and> fst (setupIP env_lease_second ''aa'' drv0 world0) = Returns None
   \<and> IPAddress (fst (snd (setupIP env_lease_second ''aa'' drv0 world0))) = ''192.168.64.2''
   \<and> trace (snd (snd (setupIP env_lease_second ''aa'' drv0 world0)))
        = [EvLookup ''aa'', EvSleep 2000000000, EvLookup ''aa'']
   \<and> retry_budget env0 = 60
   \<and> attempts (drop (length (trace world0)) (trace (snd (snd (setupIP env0 ''aa'' drv0 world0)))))
        = 60
   \<and> fst (setupIP env0 ''aa'' drv0 world0) \<noteq> Returns None"
proof -
  have b: "retry_budget env_lease_second = 60" "retry_budget env0 = 60"
    by (simp_all add: retry_budget_def example_defs)
  have s: "setupIP env_lease_second ''aa'' drv0 world0
       = (Returns None, drv0\<lparr>IPAddress := ''192.168.64.2''\<rparr>,
          world0\<lparr>trace := trace world0
                    @ concat (replicate (2 - 1) [EvLookup ''aa'', EvSleep (2 * Second)])
                    @ [EvLookup ''aa'']\<rparr>)"
    by (rule setupIP_retry_budget [THEN conjunct1, rule_format, where k = 2])
      (simp add: retry_budget_def example_defs now_def)
  have "\<exists>tl. trace (snd (snd (setupIP env0 ''aa'' drv0 world0)))
                 = trace world0
                   @ concat (replicate (retry_budget env0) [EvLookup ''aa'', EvSleep (2 * Second)])
                   @ tl
               \<and> (tl = [] \<or> tl = [EvUnblockBootpd])
               \<and> fst (setupIP env0 ''aa'' drv0 world0) \<noteq> Returns None"
    by (rule setupIP_retry_budget [THEN conjunct2, THEN conjunct1, rule_format])
      (simp add: retry_budget_def example_defs)
  then obtain tl where t: "trace (snd (snd (setupIP env0 ''aa'' drv0 world0)))
                 = trace world0
                   @ concat (replicate (retry_budget env0) [EvLookup ''aa'', EvSleep (2 * Second)])
                   @ tl"
    and tl: "tl = [] \<or> tl = [EvUnblockBootpd]"
    and r: "fst (setupIP env0 ''aa'' drv0 world0) \<noteq> Returns None"
    by blast
  have a: "attempts (drop (length (trace world0))
             (trace (snd (snd (setupIP env0 ''aa'' drv0 world0))))) = 60"
    using tl by (auto simp: t b)
  show ?thesis
    using a r
    by (simp add: s b) (simp add: example_defs now_def Second_def)
qed

subsection \<open>IP resolution: the exhausted budget\<close>

text \<open>\<open>strings_Contains\<close> finds exactly the substrings.\<close>

lemma strings_Contains_iff:
  "strings_Contains s substr \<longleftrightarrow> (\<exists>ps ss. s = ps @ substr @ ss)"
proof (induction s)
  case Nil
  then show ?case by simp
next
  case (Cons c s)
  show ?case
  proof
    assume "strings_Contains (c # s) substr"
    then consider "take (length substr) (c # s) = substr" | "strings_Contains s substr"
      by auto
    then show "\<exists>ps ss. c # s = ps @ substr @ ss"
    proof cases
      case 1
      then have "c # s = [] @ substr @ drop (length substr) (c # s)"
        by (metis append_Nil append_take_drop_id)
      then show ?thesis by blast
    next
      case 2
      with Cons.IH obtain ps ss where "s = ps @ substr @ ss" by blast
      then have "c # s = (c # ps) @ substr @ ss" by simp
      then show ?thesis by blast
    qed
  next
    assume "\<exists>ps ss. c # s = ps @ substr @ ss"
    then obtain ps ss where e: "c # s = ps @ substr @ ss" by blast
    show "strings_Contains (c # s) substr"
    proof (cases ps)
      case Nil
      with e have "take (length substr) (c # s) = substr" by simp
      then show ?thesis by simp
    next
      case (Cons p ps')
      with e have "s = ps' @ substr @ ss" by simp
      with Cons.IH have "strings_Contains s substr" by blast
      then show ?thesis by simp
    qed
  qed
qed

text \<open>A prefix without the first character of the substring does not change whether the
  substring is found.\<close>

lemma strings_Contains_prefix:
  assumes "c \<notin> set p"
  shows "strings_Contains (p @ m) (c # rest) \<longleftrightarrow> strings_Contains m (c # rest)"
proof
  assume "strings_Contains m (c # rest)"
  then obtain ps ss where "m = ps @ (c # rest) @ ss"
    unfolding strings_Contains_iff by blast
  then have "p @ m = (p @ ps) @ (c # rest) @ ss" by simp
  then show "strings_Contains (p @ m) (c # rest)"
    unfolding strings_Contains_iff by blast
next
  assume "strings_Contains (p @ m) (c # rest)"
  then obtain ps ss where e: "p @ m = ps @ (c # rest) @ ss"
    unfolding strings_Contains_iff by blast
  show "strings_Contains m (c # rest)"
  proof (cases "length p \<le> length ps")
    case True
    from e have "drop (length p) (p @ m) = drop (length p) (ps @ (c # rest) @ ss)"
      by simp
    then have "m = drop (length p) ps @ (c # rest) @ ss"
      using True by simp
    then show ?thesis
      unfolding strings_Contains_iff by blast
  next
    case False
    then have l: "length ps < length p" by simp
    from e have "(p @ m) ! length ps = (ps @ (c # rest) @ ss) ! length ps" by simp
    then have "p ! length ps = c"
      using l by (simp add: nth_append)
    moreover have "p ! length ps \<in> set p"
      using l by (intro nth_mem)
    ultimately show ?thesis using assms by metis
  qed
qed

text \<open>The prefix that \<open>errors.Wrap\<close> adds in \<open>getIP\<close> holds no letter c: the signature is
  found in the wrapped message exactly when it is found in the message of the lookup's
  error.\<close>

lemma isBootpdError_Wrap:
  "isBootpdError (Wrap e ''failed to get IP address'')
     = strings_Contains (Error_msg e) ''could not find an IP address''"
proof -
  have "CHR ''c'' \<notin> set ''failed to get IP address: ''"
    by simp
  from strings_Contains_prefix [OF this, of "Error_msg e" "''ould not find an IP address''"]
  show ?thesis
    by (simp add: isBootpdError_def)
qed

text \<open>C4, as stated, fails: when every lookup fails with the bootpd signature and the
  firewall cannot be unblocked, \<open>setupIP\<close> calls the remediation once and then ends the
  process through \<open>exit.Error\<close>; it returns no error.\<close>

theorem setupIP_exhausted_counterexample:
  "isBootpdError (Wrap (ErrMsg ''could not find an IP address for aa'')
                    ''failed to get IP address'')
   \<and> fst (setupIP env_bootpd_blocked ''aa'' drv0 world0)
        = Exits ''IfBootpdFirewall'' ''ip not found''
            (Wrap (ErrMsg ''could not find an IP address for aa'') ''failed to get IP address'')
   \<and> count_list (trace (snd (snd (setupIP env_bootpd_blocked ''aa'' drv0 world0))))
        EvUnblockBootpd = 1"
proof -
  have i: "isBootpdError (Wrap (ErrMsg ''could not find an IP address for aa'')
                    ''failed to get IP address'')"
    by (simp add: isBootpdError_def)
  have "setupIP env_bootpd_blocked ''aa'' drv0 world0
     = (Exits ''IfBootpdFirewall'' ''ip not found''
          (Wrap (ErrMsg ''could not find an IP address for aa'') ''failed to get IP address''),
        drv0\<lparr>IPAddress := []\<rparr>,
        emit EvUnblockBootpd
          (world0\<lparr>trace := trace world0
              @ concat (replicate (retry_budget env_bootpd_blocked)
                  [EvLookup ''aa'', EvSleep (2 * Second)])\<rparr>))"
    using i by (intro setupIP_exits [where unblockErr = "ErrMsg ''exit status 1''"])
      (simp_all add: example_defs)
  then show ?thesis
    using i by (simp add: world0_def)
qed

text \<open>C4, amended: when every lookup of the budget has failed, \<open>setupIP\<close> looks for the
  bootpd signature in the message of the last error (it is there exactly when it is in the
  message of the last lookup's error). Without the signature it returns that
  error, wrapped, and the remediation is not invoked. With the signature it invokes the
  firewall remediation exactly once; when the remediation succeeds it returns the error
  "ip not found: ...", and when the remediation fails the process exits through
  \<open>exit.Error\<close> with the reason IfBootpdFirewall.\<close>

theorem setupIP_exhausted:
  assumes "\<forall>j<retry_budget E. snd (GetIPAddressByMACAddress E (now w + 2 * j) mac) \<noteq> None"
    and "GetIPAddressByMACAddress E (now w + 2 * (retry_budget E - 1)) mac = (ip, Some e)"
  shows "(\<not> isBootpdError (Wrap e ''failed to get IP address'')
          \<longrightarrow> setupIP E mac d w
               = (Returns (Some (Wrap (Wrap e ''failed to get IP address'')
                                  ''IP address never found in dhcp leases file'')),
                  d\<lparr>IPAddress := ip\<rparr>,
                  w\<lparr>trace := trace w
                     @ concat (replicate (retry_budget E)
                         [EvLookup mac, EvSleep (2 * Second)])\<rparr>))
       \<and> (isBootpdError (Wrap e ''failed to get IP address'')
            \<and> UnblockBootpd E (now w + 2 * retry_budget E) = None
          \<longrightarrow> setupIP E mac d w
               = (Returns (Some (ErrMsg (''ip not found: ''
                                   @ Error_msg (Wrap e ''failed to get IP address'')))),
                  d\<lparr>IPAddress := ip\<rparr>,
                  emit EvUnblockBootpd
                    (w\<lparr>trace := trace w
                       @ concat (replicate (retry_budget E)
                           [EvLookup mac, EvSleep (2 * Second)])\<rparr>)))
       \<and> (\<forall>unblockErr. isBootpdError (Wrap e ''failed to get IP address'')
            \<and> UnblockBootpd E (now w + 2 * retry_budget E) = Some unblockErr
          \<longrightarrow> setupIP E mac d w
               = (Exits ''IfBootpdFirewall'' ''ip not found''
                    (Wrap e ''failed to get IP address''),
                  d\<lparr>IPAddress := ip\<rparr>,
                  emit EvUnblockBootpd
                    (w\<lparr>trace := trace w
                       @ concat (replicate (retry_budget E)
                           [EvLookup mac, EvSleep (2 * Second)])\<rparr>)))
       \<and> count_list (drop (length (trace w)) (trace (snd (snd (setupIP E mac d w)))))
            EvUnblockBootpd
          = (if isBootpdError (Wrap e ''failed to get IP address'') then 1 else 0)
       \<and> isBootpdError (Wrap e ''failed to get IP address'')
          = strings_Contains (Error_msg e) ''could not find an IP address''"
proof (intro conjI allI impI)
  assume "\<not> isBootpdError (Wrap e ''failed to get IP address'')"
  with assms show "setupIP E mac d w
               = (Returns (Some (Wrap (Wrap e ''failed to get IP address'')
                                  ''IP address never found in dhcp leases file'')),
                  d\<lparr>IPAddress := ip\<rparr>,
                  w\<lparr>trace := trace w
                     @ concat (replicate (retry_budget E)
                         [EvLookup mac, EvSleep (2 * Second)])\<rparr>)"
    by (rule setupIP_hard_failure)
next
  assume "isBootpdError (Wrap e ''failed to get IP address'')
            \<and> UnblockBootpd E (now w + 2 * retry_budget E) = None"
  with assms show "setupIP E mac d w
               = (Returns (Some (ErrMsg (''ip not found: ''
                                   @ Error_msg (Wrap e ''failed to get IP address'')))),
                  d\<lparr>IPAddress := ip\<rparr>,
                  emit EvUnblockBootpd
                    (w\<lparr>trace := trace w
                       @ concat (replicate (retry_budget E)
                           [EvLookup mac, EvSleep (2 * Second)])\<rparr>))"
    by (intro setupIP_unblocked) simp_all
next
  fix unblockErr
  assume "isBootpdError (Wrap e ''failed to get IP address'')
            \<and> UnblockBootpd E (now w + 2 * retry_budget E) = Some unblockErr"
  with assms show "setupIP E mac d w
               = (Exits ''IfBootpdFirewall'' ''ip not found''
                    (Wrap e ''failed to get IP address''),
                  d\<lparr>IPAddress := ip\<rparr>,
                  emit EvUnblockBootpd
                    (w\<lparr>trace := trace w
                       @ concat (replicate (retry_budget E)
                           [EvLookup mac, EvSleep (2 * Second)])\<rparr>))"
    by (intro setupIP_exits [where unblockErr = unblockErr]) simp_all
next
  show "count_list (drop (length (trace w)) (trace (snd (snd (setupIP E mac d w)))))
            EvUnblockBootpd
          = (if isBootpdError (Wrap e ''failed to get IP address'') then 1 else 0)"
  proof (cases "isBootpdError (Wrap e ''failed to get IP address'')")
    case False
    from setupIP_hard_failure [OF assms False, of d] False show ?thesis
      by simp
  next
    case True
    show ?thesis
    proof (cases "UnblockBootpd E (now w + 2 * retry_budget E)")
      case None
      from setupIP_unblocked [OF assms True None, of d] True show ?thesis
        by simp
    next
      case (Some unblockErr)
      from setupIP_exits [OF assms True Some, of d] True show ?thesis
        by simp
    qed
  qed
next
  show "isBootpdError (Wrap e ''failed to get IP address'')
          = strings_Contains (Error_msg e) ''could not find an IP address''"
    by (rule isBootpdError_Wrap)
qed

text \<open>The amended C4 on a lookup that fails without the signature (a hard failure, no
  remediation) and on one that fails with it where the firewall can be unblocked (one
  remediation, the error "ip not found").\<close>

theorem setupIP_exhausted_witness:
  "GetIPAddressByMACAddress env0 (now world0 + 2 * (retry_budget env0 - 1)) ''aa''
     = ([], Some (ErrMsg ''no lease''))
   \<and> \<not> isBootpdError (Wrap (ErrMsg ''no lease'') ''failed to get IP address'')
   \<and> fst (setupIP env0 ''aa'' drv0 world0)
       = Returns (Some (Wrap (Wrap (ErrMsg ''no lease'') ''failed to get IP address'')
                          ''IP address never found in dhcp leases file''))
   \<and> count_list (drop (length (trace world0))
                   (trace (snd (snd (setupIP env0 ''aa'' drv0 world0))))) EvUnblockBootpd = 0
   \<and> isBootpdError (Wrap (ErrMsg ''could not find an IP address for aa'')
                      ''failed to get IP address'')
   \<and> UnblockBootpd env_bootpd (now world0 + 2 * retry_budget env_bootpd) = None
   \<and> fst (setupIP env_bootpd ''aa'' drv0 world0)
       = Returns (Some (ErrMsg
           ''ip not found: failed to get IP address: could not find an IP address for aa''))
   \<and> count_list (drop (length (trace world0))
                   (trace (snd (snd (setupIP env_bootpd ''aa'' drv0 world0))))) EvUnblockBootpd = 1"
proof -
  have i0: "\<not> isBootpdError (Wrap (ErrMsg ''no lease'') ''failed to get IP address'')"
    by (simp add: isBootpdError_def)
  have i1: "isBootpdError (Wrap (ErrMsg ''could not find an IP address for aa'')
                      ''failed to get IP address'')"
    by (simp add: isBootpdError_def)
  have a0: "\<forall>j<retry_budget env0.
          snd (GetIPAddressByMACAddress env0 (now world0 + 2 * j) ''aa'') \<noteq> None"
    and g0: "GetIPAddressByMACAddress env0 (now world0 + 2 * (retry_budget env0 - 1)) ''aa''
     = ([], Some (ErrMsg ''no lease''))"
    by (simp_all add: example_defs)
  have a1: "\<forall>j<retry_budget env_bootpd.
          snd (GetIPAddressByMACAddress env_bootpd (now world0 + 2 * j) ''aa'') \<noteq> None"
    and g1: "GetIPAddressByMACAddress env_bootpd
               (now world0 + 2 * (retry_budget env_bootpd - 1)) ''aa''
     = ([], Some (ErrMsg ''could not find an IP address for aa''))"
    and u1: "UnblockBootpd env_bootpd (now world0 + 2 * retry_budget env_bootpd) = None"
    by (simp_all add: example_defs)
  show ?thesis
    using setupIP_exhausted [OF a0 g0, of drv0] setupIP_exhausted [OF a1 g1, of drv0]
      i0 i1 g0 u1
    by simp
qed

subsection \<open>The disk image\<close>

lemmas tar_defs = tar_NewWriter_def tw_WriteHeader_def tw_Write_def tw_Close_def
  append_current_def magic_header_def ssh_dir_header_def authorized_keys_header_def
  magicString_def TypeDir_def

text \<open>The archive of a key: the calls on the tar writer never fail.\<close>

lemma generateDiskImage_unfold:
  "generateDiskImage E d sz w =
     (case os_ReadFile E (publicSSHKeyPath E d) w of
        Inl err \<Rightarrow> (Some err, w)
      | Inr pubKey \<Rightarrow>
          (case os_WriteFile E (diskPath E d)
                  (tar_bytes E
                     [(magic_header, magicString), (ssh_dir_header, []),
                      (authorized_keys_header ''.ssh/authorized_keys'' pubKey, pubKey),
                      (authorized_keys_header ''.ssh/authorized_keys2'' pubKey, pubKey)]) w of
             (Some err, w1) \<Rightarrow> (None, w1)
           | (None, w1) \<Rightarrow>
               (None, snd (os_Truncate E (diskPath E d) (sint (sz * 1048576)) w1))))"
  by (simp add: generateDiskImage_def tar_NewWriter_def tw_WriteHeader_def tw_Write_def
      tw_Close_def append_current_def magic_header_def ssh_dir_header_def
      authorized_keys_header_def magicString_def TypeDir_def Let_def
      split: sum.splits prod.splits option.splits)

lemma generateDiskImage_key_unreadable:
  "os_ReadFile E (publicSSHKeyPath E d) w = Inl err \<Longrightarrow>
   generateDiskImage E d sz w = (Some err, w)"
  by (simp add: generateDiskImage_unfold)

lemma generateDiskImage_returns_nil:
  "os_ReadFile E (publicSSHKeyPath E d) w = Inr pubKey \<Longrightarrow>
   fst (generateDiskImage E d sz w) = None"
  by (simp add: generateDiskImage_unfold split: prod.splits option.splits)

lemma generateDiskImage_write_denied:
  "os_ReadFile E (publicSSHKeyPath E d) w = Inr pubKey \<Longrightarrow> write_denied E (diskPath E d) \<Longrightarrow>
   generateDiskImage E d sz w = (None, w)"
  by (simp add: generateDiskImage_unfold os_WriteFile_def)

lemma generateDiskImage_truncate_fails:
  "os_ReadFile E (publicSSHKeyPath E d) w = Inr pubKey \<Longrightarrow> \<not> write_denied E (diskPath E d) \<Longrightarrow>
   sint (sz * 1048576) < 0 \<or> truncate_denied E (diskPath E d) (nat (sint (sz * 1048576))) \<Longrightarrow>
   generateDiskImage E d sz w
     = (None, w\<lparr>files := (files w)(diskPath E d \<mapsto>
          tar_bytes E
            [(magic_header, magicString), (ssh_dir_header, []),
             (authorized_keys_header ''.ssh/authorized_keys'' pubKey, pubKey),
             (authorized_keys_header ''.ssh/authorized_keys2'' pubKey, pubKey)])\<rparr>)"
  by (auto simp: generateDiskImage_unfold os_WriteFile_def os_Truncate_def)

lemma generateDiskImage_written:
  "os_ReadFile E (publicSSHKeyPath E d) w = Inr pubKey \<Longrightarrow> \<not> write_denied E (diskPath E d) \<Longrightarrow>
   0 \<le> sint (sz * 1048576) \<Longrightarrow> \<not> truncate_denied E (diskPath E d) (nat (sint (sz * 1048576))) \<Longrightarrow>
   generateDiskImage E d sz w
     = (None, w\<lparr>files := (files w)(diskPath E d \<mapsto>
          resize (nat (sint (sz * 1048576)))
           (tar_bytes E
            [(magic_header, magicString), (ssh_dir_header, []),
             (authorized_keys_header ''.ssh/authorized_keys'' pubKey, pubKey),
             (authorized_keys_header ''.ssh/authorized_keys2'' pubKey, pubKey)]))\<rparr>)"
  by (simp add: generateDiskImage_unfold os_WriteFile_def os_Truncate_def)

lemma length_resize [simp]: "length (resize n data) = n"
  by (simp add: resize_def)

lemma resize_prefix: "length data \<le> n \<Longrightarrow> take (length data) (resize n data) = data"
  by (simp add: resize_def)

lemma resize_cut: "n \<le> length data \<Longrightarrow> resize n data = take n data"
  by (simp add: resize_def)

lemma sint_megabytes:
  assumes "0 \<le> sint (sz :: 64 word)" and "sint sz < 2 ^ 43"
  shows "sint (sz * 1048576) = sint sz * 1048576"
proof -
  have "sint (sz * 1048576) = signed_take_bit 63 (sint sz * sint (1048576 :: 64 word))"
    by (simp add: sint_word_ariths)
  also have "sint (1048576 :: 64 word) = 1048576"
    by simp
  also have "signed_take_bit 63 (sint sz * 1048576) = sint sz * 1048576"
    using assms by (intro signed_take_bit_int_eq_self) simp_all
  finally show ?thesis .
qed

lemma disk_headers:
  "magic_header = \<lparr>Name = ''boot2docker, please format-me'', Typeflag = CHR 0x00, Mode = 0, Size = 29\<rparr>"
  "ssh_dir_header = \<lparr>Name = ''.ssh'', Typeflag = CHR ''5'', Mode = 448, Size = 0\<rparr>"
  "authorized_keys_header name pubKey = \<lparr>Name = name, Typeflag = CHR 0x00, Mode = 420, Size = int (length pubKey)\<rparr>"
  "magicString = ''boot2docker, please format-me''"
  by (simp_all add: magic_header_def ssh_dir_header_def authorized_keys_header_def magicString_def TypeDir_def)

text \<open>C6, as stated, fails for some sizes. For size 0 the file is cut to nothing, so the
  image holds none of the entries. For size \<open>2 ^ 44\<close> the 64-bit product
  \<open>size * 1048576\<close> wraps to 0: the file is empty, not \<open>2 ^ 64\<close> bytes long.\<close>

theorem generateDiskImage_archive_counterexample:
  "os_ReadFile env0 (publicSSHKeyPath env0 drv0) world_key = Inr ''ssh-rsa AAAA''
   \<and> generateDiskImage env0 drv0 0 world_key
       = (None, world_key\<lparr>files := (files world_key)(diskPath env0 drv0 \<mapsto> [])\<rparr>)
   \<and> tar_bytes env0
         [(magic_header, magicString), (ssh_dir_header, []),
          (authorized_keys_header ''.ssh/authorized_keys'' ''ssh-rsa AAAA'', ''ssh-rsa AAAA''),
          (authorized_keys_header ''.ssh/authorized_keys2'' ''ssh-rsa AAAA'', ''ssh-rsa AAAA'')]
       \<noteq> []
   \<and> sint (17592186044416 :: 64 word) = 17592186044416
   \<and> generateDiskImage env0 drv0 17592186044416 world_key
       = (None, world_key\<lparr>files := (files world_key)(diskPath env0 drv0 \<mapsto> [])\<rparr>)
   \<and> int (length ([] :: string)) \<noteq> 17592186044416 * 1048576"
proof -
  have r: "os_ReadFile env0 (publicSSHKeyPath env0 drv0) world_key = Inr ''ssh-rsa AAAA''"
    by (simp add: example_defs path_defs os_ReadFile_def)
  have w: "\<not> write_denied env0 (diskPath env0 drv0)"
    and t: "\<not> truncate_denied env0 (diskPath env0 drv0) n" for n
    by (simp_all add: env0_def)
  have z: "(17592186044416 * 1048576 :: 64 word) = 0"
    by simp
  have a: "generateDiskImage env0 drv0 0 world_key
       = (None, world_key\<lparr>files := (files world_key)(diskPath env0 drv0 \<mapsto> [])\<rparr>)"
    using generateDiskImage_written [OF r w, of 0] t by (simp add: resize_def)
  have b: "generateDiskImage env0 drv0 17592186044416 world_key
       = (None, world_key\<lparr>files := (files world_key)(diskPath env0 drv0 \<mapsto> [])\<rparr>)"
    using generateDiskImage_written [OF r w, of 17592186044416] t by (simp add: z resize_def)
  have c: "tar_bytes env0
         [(magic_header, magicString), (ssh_dir_header, []),
          (authorized_keys_header ''.ssh/authorized_keys'' ''ssh-rsa AAAA'', ''ssh-rsa AAAA''),
          (authorized_keys_header ''.ssh/authorized_keys2'' ''ssh-rsa AAAA'', ''ssh-rsa AAAA'')]
       \<noteq> []"
    by (simp add: env0_def magicString_def)
  show ?thesis
    using r a b c by simp
qed

text \<open>C6, amended: for every public key and every size from 0 to below \<open>2 ^ 43\<close>
  megabytes, when the key file can be read and the disk image can be written and
  resized, \<open>generateDiskImage\<close> returns nil after writing the tar archive whose entries
  are, in this order, the sentinel entry (named by the sentinel, holding the sentinel),
  the directory \<open>.ssh\<close> with mode 0700, and \<open>.ssh/authorized_keys\<close> and
  \<open>.ssh/authorized_keys2\<close> with mode 0644, each holding the key; and after cutting or
  zero-extending that file to exactly size times 1,048,576 bytes. The file begins with the
  whole archive when the archive is not longer than that, and is a prefix of the archive
  otherwise.\<close>

theorem generateDiskImage_archive:
  assumes "os_ReadFile E (publicSSHKeyPath E d) w = Inr pubKey"
    and "\<not> write_denied E (diskPath E d)"
    and "0 \<le> sint sz" and "sint sz < 2 ^ 43"
    and "\<not> truncate_denied E (diskPath E d) (nat (sint sz) * 1048576)"
  shows "let archive = tar_bytes E
           [(\<lparr>Name = ''boot2docker, please format-me'', Typeflag = CHR 0x00, Mode = 0,
              Size = 29\<rparr>, ''boot2docker, please format-me''),
            (\<lparr>Name = ''.ssh'', Typeflag = CHR ''5'', Mode = 448, Size = 0\<rparr>, []),
            (\<lparr>Name = ''.ssh/authorized_keys'', Typeflag = CHR 0x00, Mode = 420,
              Size = int (length pubKey)\<rparr>, pubKey),
            (\<lparr>Name = ''.ssh/authorized_keys2'', Typeflag = CHR 0x00, Mode = 420,
              Size = int (length pubKey)\<rparr>, pubKey)];
             n = nat (sint sz) * 1048576
         in generateDiskImage E d sz w
              = (None, w\<lparr>files := (files w)(diskPath E d \<mapsto> resize n archive)\<rparr>)
          \<and> length (resize n archive) = n
          \<and> (length archive \<le> n \<longrightarrow> take (length archive) (resize n archive) = archive)
          \<and> (n \<le> length archive \<longrightarrow> resize n archive = take n archive)"
proof -
  have s: "sint (sz * 1048576) = sint sz * 1048576"
    using assms(3,4) by (rule sint_megabytes)
  have n: "nat (sint (sz * 1048576)) = nat (sint sz) * 1048576"
    using assms(3) by (simp add: s nat_mult_distrib)
  have p: "0 \<le> sint (sz * 1048576)"
    using assms(3) by (simp add: s)
  have t: "\<not> truncate_denied E (diskPath E d) (nat (sint (sz * 1048576)))"
    using assms(5) by (simp add: n)
  from generateDiskImage_written [OF assms(1,2) p t] show ?thesis
    by (simp add: Let_def n disk_headers resize_prefix resize_cut)
qed

text \<open>The amended C6 for a disk of one megabyte.\<close>

theorem generateDiskImage_archive_witness:
  "os_ReadFile env0 (publicSSHKeyPath env0 drv0) world_key = Inr ''ssh-rsa AAAA''
   \<and> \<not> write_denied env0 (diskPath env0 drv0)
   \<and> 0 \<le> sint (1 :: 64 word) \<and> sint (1 :: 64 word) < 2 ^ 43
   \<and> \<not> truncate_denied env0 (diskPath env0 drv0) (nat (sint (1 :: 64 word)) * 1048576)
   \<and> fst (generateDiskImage env0 drv0 1 world_key) = None
   \<and> files (snd (generateDiskImage env0 drv0 1 world_key)) ''/s/machines/m/disk.img''
       = Some (resize 1048576
           (''boot2docker, please format-meboot2docker, please format-me.ssh''
            @ ''.ssh/authorized_keysssh-rsa AAAA.ssh/authorized_keys2ssh-rsa AAAA''))
   \<and> length (resize 1048576
           (''boot2docker, please format-meboot2docker, please format-me.ssh''
            @ ''.ssh/authorized_keysssh-rsa AAAA.ssh/authorized_keys2ssh-rsa AAAA''))
       = 1048576"
proof -
  have r: "os_ReadFile env0 (publicSSHKeyPath env0 drv0) world_key = Inr ''ssh-rsa AAAA''"
    by (simp add: example_defs path_defs os_ReadFile_def)
  have w: "\<not> write_denied env0 (diskPath env0 drv0)"
    and t: "\<not> truncate_denied env0 (diskPath env0 drv0) (nat (sint (1 :: 64 word)) * 1048576)"
    by (simp_all add: env0_def)
  have p: "diskPath env0 drv0 = ''/s/machines/m/disk.img''"
    by (simp add: example_defs path_defs)
  have e: "tar_bytes env0 es = concat (map (\<lambda>(hdr, content). Name hdr @ content) es)" for es
    by (simp add: env0_def)
  from generateDiskImage_archive [OF r w _ _ t] r w t show ?thesis
    by (simp add: Let_def p e)
qed

text \<open>C7: the code does not do what the claim says. When the disk image cannot be
  written, \<open>generateDiskImage\<close> returns nil and no image exists; when it cannot be
  resized, \<open>generateDiskImage\<close> returns nil and the image has the length of the archive,
  not the requested size.\<close>

theorem generateDiskImage_swallows_errors:
  "os_ReadFile env_readonly (publicSSHKeyPath env_readonly drv0) world_key
     = Inr ''ssh-rsa AAAA''
   \<and> write_denied env_readonly (diskPath env_readonly drv0)
   \<and> generateDiskImage env_readonly drv0 20000 world_key = (None, world_key)
   \<and> files world_key (diskPath env_readonly drv0) = None
   \<and> truncate_denied env_quota (diskPath env_quota drv0)
         (nat (sint (20000 * 1048576 :: 64 word)))
   \<and> fst (generateDiskImage env_quota drv0 20000 world_key) = None
   \<and> files (snd (generateDiskImage env_quota drv0 20000 world_key)) (diskPath env_quota drv0)
       = Some (''boot2docker, please format-meboot2docker, please format-me.ssh''
            @ ''.ssh/authorized_keysssh-rsa AAAA.ssh/authorized_keys2ssh-rsa AAAA'')"
proof -
  have r: "os_ReadFile env_readonly (publicSSHKeyPath env_readonly drv0) world_key
     = Inr ''ssh-rsa AAAA''"
    and r': "os_ReadFile env_quota (publicSSHKeyPath env_quota drv0) world_key
     = Inr ''ssh-rsa AAAA''"
    by (simp_all add: example_defs path_defs os_ReadFile_def)
  have d: "write_denied env_readonly (diskPath env_readonly drv0)"
    and d': "\<not> write_denied env_quota (diskPath env_quota drv0)"
    and q: "truncate_denied env_quota (diskPath env_quota drv0) n" for n
    by (simp_all add: example_defs path_defs)
  have e: "tar_bytes env_quota es = concat (map (\<lambda>(hdr, content). Name hdr @ content) es)" for es
    by (simp add: example_defs)
  have a: "generateDiskImage env_readonly drv0 20000 world_key = (None, world_key)"
    using r d by (rule generateDiskImage_write_denied)
  have b: "generateDiskImage env_quota drv0 20000 world_key
     = (None, world_key\<lparr>files := (files world_key)(diskPath env_quota drv0 \<mapsto>
          tar_bytes env_quota
            [(magic_header, magicString), (ssh_dir_header, []),
             (authorized_keys_header ''.ssh/authorized_keys'' ''ssh-rsa AAAA'', ''ssh-rsa AAAA''),
             (authorized_keys_header ''.ssh/authorized_keys2'' ''ssh-rsa AAAA'',
              ''ssh-rsa AAAA'')])\<rparr>)"
    using r' d' q by (intro generateDiskImage_truncate_fails) simp_all
  have f: "files world_key (diskPath env_readonly drv0) = None"
    by (simp add: example_defs path_defs)
  show ?thesis
    using r a f d q by (simp add: b e disk_headers)
qed

subsection \<open>Waiting for the SSH endpoint\<close>


lemma dials_append [simp]: "dials (xs @ ys) = dials xs + dials ys"
  by (induction xs rule: dials.induct) simp_all

lemma dials_closes [simp]: "dials (replicate m (EvClose addr)) = 0"
  by (induction m) simp_all











end
